theory Spec2Isabelle
  imports Complex_Main "HOL-Library.Word"
begin

unbundle bit_operations_syntax

section \<open>Failures (lara/errors.go)\<close>

text \<open>
  Go's \<open>error\<close> interface values that the client produces.  The three named types are those of
  \<open>errors.go\<close>; \<open>Errorf\<close> is \<open>fmt.Errorf\<close> without a wrapped cause, \<open>Wrapf p e\<close> is
  \<open>fmt.Errorf(p + "%w", e)\<close>, and \<open>LibError\<close> is an error value made by the standard library
  (net/http, io, encoding/json), of which only the message is ever read.
\<close>

datatype error =
    LaraError int string string
  | LaraConnectionError string
  | LaraTimeoutError string
  | Errorf string
  | Wrapf string error
  | LibError string


text \<open>The type assertions \<open>err.(*LaraError)\<close> and \<open>err.(*LaraTimeoutError)\<close>: they look at the
  dynamic type of the value itself and do not unwrap.\<close>

fun as_LaraError :: "error \<Rightarrow> (int \<times> string \<times> string) option" where
  "as_LaraError (LaraError st ty msg) = Some (st, ty, msg)"
| "as_LaraError (LaraConnectionError msg) = None"
| "as_LaraError (LaraTimeoutError msg) = None"
| "as_LaraError (Errorf s) = None"
| "as_LaraError (Wrapf p e) = None"
| "as_LaraError (LibError s) = None"

fun as_LaraTimeoutError :: "error \<Rightarrow> string option" where
  "as_LaraTimeoutError (LaraError st ty msg) = None"
| "as_LaraTimeoutError (LaraConnectionError msg) = None"
| "as_LaraTimeoutError (LaraTimeoutError msg) = Some msg"
| "as_LaraTimeoutError (Errorf s) = None"
| "as_LaraTimeoutError (Wrapf p e) = None"
| "as_LaraTimeoutError (LibError s) = None"


text \<open>The kinds of failure the specification names for a request, by what a caller can
  observe: the three error types, and for the generic API failure the text of a \<open>fmt.Errorf\<close>
  error that starts with \<open>API error: \<close>.  Every other error value is \<open>Plain\<close>.\<close>

datatype failure_kind = Timeout | Connection | API | GenericAPI | Plain

fun kind_of :: "error \<Rightarrow> failure_kind" where
  "kind_of (LaraError st ty msg) = API"
| "kind_of (LaraConnectionError msg) = Connection"
| "kind_of (LaraTimeoutError msg) = Timeout"
| "kind_of (Errorf s) = (if take 11 s = ''API error: '' then GenericAPI else Plain)"
| "kind_of (Wrapf p e) = Plain"
| "kind_of (LibError s) = Plain"

section \<open>Formatting (fmt)\<close>

text \<open>\<open>fmt.Sprintf\<close> for formats whose only verb is \<open>%s\<close>, applied to strings.\<close>

fun Sprintf :: "string \<Rightarrow> string list \<Rightarrow> string" where
  "Sprintf [] args = []"
| "Sprintf [c] args = [c]"
| "Sprintf (c # d # fmt) args =
     (if c = CHR ''%'' \<and> d = CHR ''s'' then
        (case args of
           [] \<Rightarrow> ''%!s(MISSING)'' @ Sprintf fmt []
         | a # rest \<Rightarrow> a @ Sprintf fmt rest)
      else c # Sprintf (d # fmt) args)"

declare Sprintf.simps [simp del]

section \<open>Long-running operation records (lara/types.go)\<close>

text \<open>\<open>Progress\<close> is a float64 decoded from JSON; it is only ever compared with \<open>1.0\<close>, and the
  comparison of two finite floats is the comparison of the numbers they denote.\<close>

record Import =
  ID :: string
  Begin :: int
  End :: int
  Channel :: int
  Size :: int
  Progress :: real

type_synonym MemoryImport = Import
type_synonym GlossaryImport = Import

section \<open>The environment of a wait loop\<close>

text \<open>
  A wait loop reads the clock, sleeps and calls the server.  One \<open>tick\<close> holds what the world
  answers during one iteration: the value \<open>time.Since(start)\<close> has when the iteration reads it, and
  the outcome of \<open>client.Get(path, nil, nil, &dst)\<close> as a function of the path (the failure, or
  the value decoded into \<open>dst\<close>).  A run is given a finite list of ticks; a loop that would need
  more than it is given has not returned, which is the value \<open>None\<close>.

  Every effect of a run is recorded, in order, as an \<open>event\<close>.
\<close>

record 'a tick =
  since :: int
  get :: "string \<Rightarrow> error + 'a"

datatype 'a event =
    Since int
  | Sleep int
  | Get string "error + 'a"
  | Callback 'a

definition Second :: int where
  "Second = 1000000000"

fun fetched :: "'a event list \<Rightarrow> 'a list" where
  "fetched [] = []"
| "fetched (Get p (Inr u) # es) = u # fetched es"
| "fetched (e # es) = fetched es"

fun callbacks :: "'a event list \<Rightarrow> 'a list" where
  "callbacks [] = []"
| "callbacks (Callback u # es) = u # callbacks es"
| "callbacks (e # es) = callbacks es"

fun sleeps :: "'a event list \<Rightarrow> int list" where
  "sleeps [] = []"
| "sleeps (Sleep d # es) = d # sleeps es"
| "sleeps (e # es) = sleeps es"

fun paths :: "'a event list \<Rightarrow> string list" where
  "paths [] = []"
| "paths (Get p r # es) = p # paths es"
| "paths (e # es) = paths es"

text \<open>A trace in which every sleep comes directly after a reading of the clock that did not
  exceed the maximum \<open>m\<close>.\<close>

fun sleeps_checked :: "int \<Rightarrow> 'a event list \<Rightarrow> bool" where
  "sleeps_checked m [] = True"
| "sleeps_checked m (Since d # Sleep i # es) = (d \<le> m \<and> sleeps_checked m es)"
| "sleeps_checked m (Sleep i # es) = False"
| "sleeps_checked m (e # es) = sleeps_checked m es"

text \<open>\<open>maxWaitTime != nil && time.Since(start) > *maxWaitTime\<close>: the clock is read only when a
  maximum was given.\<close>

fun timed_out :: "int option \<Rightarrow> int \<Rightarrow> bool" where
  "timed_out None d = False"
| "timed_out (Some m) d = (d > m)"

fun clock_events :: "int option \<Rightarrow> int \<Rightarrow> 'a event list" where
  "clock_events None d = []"
| "clock_events (Some m) d = [Since d]"

text \<open>\<open>updateCallback(&current)\<close> receives a pointer to the loop's own copy, so what it leaves
  there is the snapshot the loop goes on with.  A callback is the function from the snapshot it
  is handed to the snapshot it leaves; one that only reads is the identity.\<close>

fun run_callback :: "('a \<Rightarrow> 'a) option \<Rightarrow> 'a \<Rightarrow> 'a" where
  "run_callback None u = u"
| "run_callback (Some f) u = f u"

fun callback_events :: "('a \<Rightarrow> 'a) option \<Rightarrow> 'a \<Rightarrow> 'a event list" where
  "callback_events None u = []"
| "callback_events (Some f) u = [Callback u]"

fun after :: "'e list \<Rightarrow> ('s \<times> 'r \<times> 'e list) option \<Rightarrow> ('s \<times> 'r \<times> 'e list) option" where
  "after es None = None"
| "after es (Some (s, r, tr)) = Some (s, r, es @ tr)"

text \<open>Stubs for concrete runs: an import record with a given identifier and progress, and a
  tick whose clock reads \<open>d\<close> and whose server answers \<open>r\<close> to every path.\<close>

definition import_at :: "string \<Rightarrow> real \<Rightarrow> Import" where
  "import_at i p = \<lparr>ID = i, Begin = 0, End = 0, Channel = 0, Size = 0, Progress = p\<rparr>"

definition answering :: "int \<Rightarrow> (error + 'a) \<Rightarrow> 'a tick" where
  "answering d r = \<lparr>since = d, get = (\<lambda>path. r)\<rparr>"

definition observe :: "'a \<Rightarrow> 'a" where
  "observe u = u"

section \<open>Memory imports (MemoriesService)\<close>

text \<open>A service call returns its Go result together with the events it caused.\<close>

definition Memories_GetImportStatus ::
  "(string \<Rightarrow> error + Import) \<Rightarrow> string \<Rightarrow> (error + Import) \<times> Import event list" where
  "Memories_GetImportStatus client_Get id' =
     (let path = Sprintf ''/memories/imports/%s'' [id']
      in (case client_Get path of
            Inl err \<Rightarrow> Inl (Wrapf ''failed to get import status: '' err)
          | Inr memoryImport \<Rightarrow> Inr memoryImport,
          [Get path (client_Get path)]))"

fun Memories_WaitForImport_loop ::
  "(Import \<Rightarrow> Import) option \<Rightarrow> int option \<Rightarrow> Import \<Rightarrow> Import tick list \<Rightarrow>
     (Import \<times> error option \<times> Import event list) option" where
  "Memories_WaitForImport_loop updateCallback maxWaitTime current [] =
     (if Progress current < 1 then None else Some (current, None, []))"
| "Memories_WaitForImport_loop updateCallback maxWaitTime current (t # ts) =
     (if Progress current < 1 then
        (if timed_out maxWaitTime (since t) then
           Some (current, Some (Errorf ''timeout waiting for import to complete''),
                 clock_events maxWaitTime (since t))
         else
           (case Memories_GetImportStatus (get t) (ID current) of
              (Inl err, evs) \<Rightarrow>
                Some (current, Some err,
                      clock_events maxWaitTime (since t) @ [Sleep (2 * Second)] @ evs)
            | (Inr updated, evs) \<Rightarrow>
                after (clock_events maxWaitTime (since t) @ [Sleep (2 * Second)] @ evs @
                       callback_events updateCallback updated)
                  (Memories_WaitForImport_loop updateCallback maxWaitTime
                     (run_callback updateCallback updated) ts)))
      else Some (current, None, []))"

definition Memories_WaitForImport ::
  "Import \<Rightarrow> (Import \<Rightarrow> Import) option \<Rightarrow> int option \<Rightarrow> Import tick list \<Rightarrow>
     (Import \<times> error option \<times> Import event list) option" where
  "Memories_WaitForImport memoryImport updateCallback maxWaitTime ticks =
     Memories_WaitForImport_loop updateCallback maxWaitTime memoryImport ticks"

section \<open>Glossary imports (GlossariesService)\<close>

record GlossariesService =
  pollingInterval :: int

definition newGlossariesService :: GlossariesService where
  "newGlossariesService = \<lparr>pollingInterval = 2 * Second\<rparr>"

definition Glossaries_GetImportStatus ::
  "(string \<Rightarrow> error + Import) \<Rightarrow> string \<Rightarrow> (error + Import) \<times> Import event list" where
  "Glossaries_GetImportStatus client_Get id' =
     (let path = Sprintf ''/glossaries/imports/%s'' [id']
      in (case client_Get path of
            Inl err \<Rightarrow> Inl (Wrapf ''failed to get glossary import status: '' err)
          | Inr glossaryImport \<Rightarrow> Inr glossaryImport,
          [Get path (client_Get path)]))"

fun Glossaries_WaitForImport_loop ::
  "GlossariesService \<Rightarrow> (Import \<Rightarrow> Import) option \<Rightarrow> int option \<Rightarrow> Import \<Rightarrow> Import tick list \<Rightarrow>
     (Import \<times> error option \<times> Import event list) option" where
  "Glossaries_WaitForImport_loop g updateCallback maxWaitTime current [] =
     (if Progress current < 1 then None else Some (current, None, []))"
| "Glossaries_WaitForImport_loop g updateCallback maxWaitTime current (t # ts) =
     (if Progress current < 1 then
        (if timed_out maxWaitTime (since t) then
           Some (current, Some (Errorf ''timeout waiting for glossary import to complete''),
                 clock_events maxWaitTime (since t))
         else
           (case Glossaries_GetImportStatus (get t) (ID current) of
              (Inl err, evs) \<Rightarrow>
                Some (current, Some (Wrapf ''failed to get import status: '' err),
                      clock_events maxWaitTime (since t) @ [Sleep (pollingInterval g)] @ evs)
            | (Inr updated, evs) \<Rightarrow>
                after (clock_events maxWaitTime (since t) @ [Sleep (pollingInterval g)] @ evs @
                       callback_events updateCallback updated)
                  (Glossaries_WaitForImport_loop g updateCallback maxWaitTime
                     (run_callback updateCallback updated) ts)))
      else Some (current, None, []))"

definition Glossaries_WaitForImport ::
  "GlossariesService \<Rightarrow> Import \<Rightarrow> (Import \<Rightarrow> Import) option \<Rightarrow> int option \<Rightarrow> Import tick list \<Rightarrow>
     (Import \<times> error option \<times> Import event list) option" where
  "Glossaries_WaitForImport g glossaryImport updateCallback maxWaitTime ticks =
     Glossaries_WaitForImport_loop g updateCallback maxWaitTime glossaryImport ticks"


section \<open>Document translation (DocumentsService)\<close>

type_synonym DocumentStatus = string

definition DocumentStatusInitialized :: DocumentStatus where "DocumentStatusInitialized = ''initialized''"
definition DocumentStatusAnalyzing :: DocumentStatus where "DocumentStatusAnalyzing = ''analyzing''"
definition DocumentStatusPaused :: DocumentStatus where "DocumentStatusPaused = ''paused''"
definition DocumentStatusReady :: DocumentStatus where "DocumentStatusReady = ''ready''"
definition DocumentStatusTranslating :: DocumentStatus where "DocumentStatusTranslating = ''translating''"
definition DocumentStatusTranslated :: DocumentStatus where "DocumentStatusTranslated = ''translated''"
definition DocumentStatusError :: DocumentStatus where "DocumentStatusError = ''error''"

record DocumentUploadOptions =
  AdaptTo :: "string list"
  Glossaries :: "string list"
  NoTrace :: "bool option"

record Document =
  doc_ID :: string
  doc_Status :: DocumentStatus
  doc_Source :: "string option"
  doc_Target :: string
  doc_Filename :: string
  doc_CreatedAt :: string
  doc_UpdatedAt :: string
  doc_Options :: "DocumentUploadOptions option"
  doc_TranslatedChars :: "int option"
  doc_TotalChars :: "int option"
  doc_ErrorReason :: "string option"

record DocumentTranslateOptions =
  UploadOptions :: DocumentUploadOptions
  OutputFormat :: string

text \<open>A document record with a given identifier, status and error reason, for concrete runs.\<close>

definition document_at :: "string \<Rightarrow> DocumentStatus \<Rightarrow> string option \<Rightarrow> Document" where
  "document_at i st reason =
     \<lparr>doc_ID = i, doc_Status = st, doc_Source = None, doc_Target = ''it'', doc_Filename = ''a.txt'',
      doc_CreatedAt = [], doc_UpdatedAt = [], doc_Options = None, doc_TranslatedChars = None,
      doc_TotalChars = None, doc_ErrorReason = reason\<rparr>"

definition Documents_Status ::
  "(string \<Rightarrow> error + Document) \<Rightarrow> string \<Rightarrow> (error + Document) \<times> Document event list" where
  "Documents_Status client_Get id' =
     (let path = Sprintf ''/documents/%s'' [id']
      in (case client_Get path of
            Inl err \<Rightarrow> Inl (Wrapf ''failed to get document status: '' err)
          | Inr document \<Rightarrow> Inr document,
          [Get path (client_Get path)]))"

text \<open>\<open>var maxWaitTime time.Duration\<close> in \<open>waitForTranslation\<close> is never assigned: it keeps the
  zero value, and \<open>maxWaitTime > 0 && time.Since(start) > maxWaitTime\<close> reads the clock only
  when the first conjunct holds.\<close>

definition waitForTranslation_maxWaitTime :: int where
  "waitForTranslation_maxWaitTime = 0"

fun waitForTranslation_loop ::
  "Document \<Rightarrow> Document tick list \<Rightarrow> (Document \<times> error option \<times> Document event list) option" where
  "waitForTranslation_loop current [] =
     (if doc_Status current \<noteq> DocumentStatusTranslated \<and> doc_Status current \<noteq> DocumentStatusError
      then None else Some (current, None, []))"
| "waitForTranslation_loop current (t # ts) =
     (if doc_Status current \<noteq> DocumentStatusTranslated \<and> doc_Status current \<noteq> DocumentStatusError then
        (if waitForTranslation_maxWaitTime > 0 \<and> since t > waitForTranslation_maxWaitTime then
           Some (current, Some (Errorf ''timeout waiting for translation to complete''), [Since (since t)])
         else
           (case Documents_Status (get t) (doc_ID current) of
              (Inl err, evs) \<Rightarrow>
                Some (current, Some err,
                      (if waitForTranslation_maxWaitTime > 0 then [Since (since t)] else []) @
                      [Sleep (2 * Second)] @ evs)
            | (Inr updated, evs) \<Rightarrow>
                after ((if waitForTranslation_maxWaitTime > 0 then [Since (since t)] else []) @
                       [Sleep (2 * Second)] @ evs)
                  (waitForTranslation_loop updated ts)))
      else Some (current, None, []))"

definition waitForTranslation ::
  "Document \<Rightarrow> Document tick list \<Rightarrow> (Document \<times> error option \<times> Document event list) option" where
  "waitForTranslation document ticks = waitForTranslation_loop document ticks"

text \<open>
  \<open>TranslateWithOptions\<close> uploads, waits and downloads.  The upload and the download are calls
  to the object store and the API whose outcomes are given: \<open>upload\<close> is what
  \<open>d.UploadWithOptions(filePath, filename, source, target, uploadOptions)\<close> returns, and
  \<open>download id' fmt\<close> is what \<open>d.DownloadWithOptions(id', &DocumentDownloadOptions{fmt})\<close> returns
  (the failure, or the content behind the reader).  The result is \<open>None\<close> when the wait has not
  returned within the ticks given.
\<close>

definition Documents_TranslateWithOptions ::
  "(error + Document) \<Rightarrow> Document tick list \<Rightarrow> (string \<Rightarrow> string \<Rightarrow> error + string) \<Rightarrow>
     DocumentTranslateOptions option \<Rightarrow> (error + string) option" where
  "Documents_TranslateWithOptions upload ticks download options =
     (case upload of
        Inl err \<Rightarrow> Some (Inl (Wrapf ''failed to upload document: '' err))
      | Inr document \<Rightarrow>
          (case waitForTranslation document ticks of
             None \<Rightarrow> None
           | Some (document', Some err, tr) \<Rightarrow> Some (Inl (Wrapf ''failed to wait for translation: '' err))
           | Some (document', None, tr) \<Rightarrow>
               (if doc_Status document' = DocumentStatusError then
                  Some (Inl (Errorf (''document translation failed: '' @
                     (case doc_ErrorReason document' of None \<Rightarrow> ''translation failed'' | Some reason \<Rightarrow> reason))))
                else
                  Some (download (doc_ID document')
                     (case options of
                        None \<Rightarrow> []
                      | Some opts \<Rightarrow> if OutputFormat opts \<noteq> [] then OutputFormat opts else [])))))"

text \<open>A download that succeeds with the given content, for concrete runs.\<close>

definition download_as :: "string \<Rightarrow> string \<Rightarrow> string \<Rightarrow> error + string" where
  "download_as content id' outputFormat = Inr content"

definition Documents_Translate ::
  "(error + Document) \<Rightarrow> Document tick list \<Rightarrow> (string \<Rightarrow> string \<Rightarrow> error + string) \<Rightarrow>
     (error + string) option" where
  "Documents_Translate upload ticks download = Documents_TranslateWithOptions upload ticks download None"

section \<open>Looking up one memory or glossary\<close>

text \<open>\<open>Get\<close> never looks inside the value it decodes, so the model leaves its type open.  The
  result pair is the Go pair \<open>(*Memory, error)\<close>: \<open>None\<close> is \<open>nil\<close>.\<close>

definition Memories_Get :: "(string \<Rightarrow> error + 'm) \<Rightarrow> string \<Rightarrow> 'm option \<times> error option" where
  "Memories_Get client_Get id' =
     (case client_Get (Sprintf ''/memories/%s'' [id']) of
        Inl err \<Rightarrow>
          (case as_LaraError err of
             Some (status, ty, msg) \<Rightarrow>
               if status = 404 then (None, None)
               else (None, Some (Wrapf ''failed to get memory: '' err))
           | None \<Rightarrow> (None, Some (Wrapf ''failed to get memory: '' err)))
      | Inr memory \<Rightarrow> (Some memory, None))"

definition Glossaries_Get :: "(string \<Rightarrow> error + 'g) \<Rightarrow> string \<Rightarrow> 'g option \<times> error option" where
  "Glossaries_Get client_Get id' =
     (case client_Get (Sprintf ''/glossaries/%s'' [id']) of
        Inl err \<Rightarrow>
          (case as_LaraError err of
             Some (status, ty, msg) \<Rightarrow>
               if status = 404 then (None, None)
               else (None, Some (Wrapf ''failed to get glossary: '' err))
           | None \<Rightarrow> (None, Some (Wrapf ''failed to get glossary: '' err)))
      | Inr glossary \<Rightarrow> (Some glossary, None))"


section \<open>Bytes, digests and encodings (crypto/sha256, crypto/hmac, crypto/md5, encoding/base64)\<close>

text \<open>
  A Go \<open>string\<close> and a \<open>[]byte\<close> are both sequences of bytes, here \<open>string\<close> (a list of 8-bit
  \<open>char\<close>s).  The digests are written out in full, after FIPS 180-4 (SHA-256), RFC 2104 (HMAC),
  RFC 1321 (MD5) and RFC 4648 (base64 with the standard alphabet and padding), over 32-bit words.
\<close>

type_synonym w32 = "32 word"

definition K256 :: "w32 list" where
  "K256 = [0x428a2f98, 0x71374491, 0xb5c0fbcf, 0xe9b5dba5, 0x3956c25b, 0x59f111f1, 0x923f82a4, 0xab1c5ed5, 0xd807aa98, 0x12835b01, 0x243185be, 0x550c7dc3, 0x72be5d74, 0x80deb1fe, 0x9bdc06a7, 0xc19bf174, 0xe49b69c1, 0xefbe4786, 0x0fc19dc6, 0x240ca1cc, 0x2de92c6f, 0x4a7484aa, 0x5cb0a9dc, 0x76f988da, 0x983e5152, 0xa831c66d, 0xb00327c8, 0xbf597fc7, 0xc6e00bf3, 0xd5a79147, 0x06ca6351, 0x14292967, 0x27b70a85, 0x2e1b2138, 0x4d2c6dfc, 0x53380d13, 0x650a7354, 0x766a0abb, 0x81c2c92e, 0x92722c85, 0xa2bfe8a1, 0xa81a664b, 0xc24b8b70, 0xc76c51a3, 0xd192e819, 0xd6990624, 0xf40e3585, 0x106aa070, 0x19a4c116, 0x1e376c08, 0x2748774c, 0x34b0bcb5, 0x391c0cb3, 0x4ed8aa4a, 0x5b9cca4f, 0x682e6ff3, 0x748f82ee, 0x78a5636f, 0x84c87814, 0x8cc70208, 0x90befffa, 0xa4506ceb, 0xbef9a3f7, 0xc67178f2]"

definition be32 :: "string \<Rightarrow> w32" where
  "be32 bs = foldl (\<lambda>w c. push_bit 8 w OR of_nat (of_char c)) 0 (take 4 bs)"

definition be32_bytes :: "w32 \<Rightarrow> string" where
  "be32_bytes w = [char_of (unat (drop_bit 24 w)), char_of (unat (drop_bit 16 w)), char_of (unat (drop_bit 8 w)), char_of (unat w)]"

definition be64_bytes :: "64 word \<Rightarrow> string" where
  "be64_bytes w = map (\<lambda>i. char_of (unat (drop_bit (8 * i) w))) [7, 6, 5, 4, 3, 2, 1, 0]"

fun chunks :: "nat \<Rightarrow> nat \<Rightarrow> 'a list \<Rightarrow> 'a list list" where
  "chunks 0 n xs = []"
| "chunks (Suc k) n xs = take n xs # chunks k n (drop n xs)"

definition sha256_pad :: "string \<Rightarrow> string" where
  "sha256_pad m = m @ [CHR 0x80] @ replicate ((119 - length m mod 64) mod 64) (CHR 0x00) @
     be64_bytes (of_nat (8 * length m))"

definition schedule :: "string \<Rightarrow> w32 list" where
  "schedule block = foldl (\<lambda>w i. w @ [
       (word_rotr 17 (w ! (i - 2)) XOR word_rotr 19 (w ! (i - 2)) XOR drop_bit 10 (w ! (i - 2)))
       + w ! (i - 7)
       + (word_rotr 7 (w ! (i - 15)) XOR word_rotr 18 (w ! (i - 15)) XOR drop_bit 3 (w ! (i - 15)))
       + w ! (i - 16)])
     (map be32 (chunks 16 4 block)) [16..<64]"

type_synonym st256 = "w32 \<times> w32 \<times> w32 \<times> w32 \<times> w32 \<times> w32 \<times> w32 \<times> w32"

fun round256 :: "st256 \<Rightarrow> w32 \<times> w32 \<Rightarrow> st256" where
  "round256 (a, b, c, d, e, f, g, h) (k, w) =
     (let t1 = h + (word_rotr 6 e XOR word_rotr 11 e XOR word_rotr 25 e) + ((e AND f) XOR (NOT e AND g)) + k + w;
          t2 = (word_rotr 2 a XOR word_rotr 13 a XOR word_rotr 22 a) + ((a AND b) XOR (a AND c) XOR (b AND c))
      in (t1 + t2, a, b, c, d + t1, e, f, g))"

fun add256 :: "st256 \<Rightarrow> st256 \<Rightarrow> st256" where
  "add256 (a, b, c, d, e, f, g, h) (a', b', c', d', e', f', g', h') =
     (a + a', b + b', c + c', d + d', e + e', f + f', g + g', h + h')"

definition compress256 :: "st256 \<Rightarrow> string \<Rightarrow> st256" where
  "compress256 s block = add256 s (foldl round256 s (zip K256 (schedule block)))"

definition H256 :: st256 where
  "H256 = (0x6a09e667, 0xbb67ae85, 0x3c6ef372, 0xa54ff53a, 0x510e527f, 0x9b05688c, 0x1f83d9ab, 0x5be0cd19)"

fun out256 :: "st256 \<Rightarrow> string" where
  "out256 (a, b, c, d, e, f, g, h) = concat (map be32_bytes [a, b, c, d, e, f, g, h])"

definition sha256_Sum :: "string \<Rightarrow> string" where
  "sha256_Sum m = out256 (foldl compress256 H256 (chunks (length (sha256_pad m) div 64) 64 (sha256_pad m)))"

definition hexdigit :: "nat \<Rightarrow> char" where
  "hexdigit n = (if n < 10 then char_of (48 + n) else char_of (87 + n))"

definition hex :: "string \<Rightarrow> string" where
  "hex bs = concat (map (\<lambda>c. [hexdigit (of_char c div 16), hexdigit (of_char c mod 16)]) bs)"

definition xor_byte :: "nat \<Rightarrow> char \<Rightarrow> char" where
  "xor_byte p c = char_of (unat ((of_nat (of_char c) :: 8 word) XOR of_nat p))"

definition hmac_sha256 :: "string \<Rightarrow> string \<Rightarrow> string" where
  "hmac_sha256 key m =
     (let k0 = (if length key > 64 then sha256_Sum key else key);
          k = k0 @ replicate (64 - length k0) (CHR 0x00)
      in sha256_Sum (map (xor_byte 0x5c) k @ sha256_Sum (map (xor_byte 0x36) k @ m)))"


definition T_md5 :: "w32 list" where
  "T_md5 = [0xd76aa478, 0xe8c7b756, 0x242070db, 0xc1bdceee, 0xf57c0faf, 0x4787c62a, 0xa8304613, 0xfd469501, 0x698098d8, 0x8b44f7af, 0xffff5bb1, 0x895cd7be, 0x6b901122, 0xfd987193, 0xa679438e, 0x49b40821, 0xf61e2562, 0xc040b340, 0x265e5a51, 0xe9b6c7aa, 0xd62f105d, 0x02441453, 0xd8a1e681, 0xe7d3fbc8, 0x21e1cde6, 0xc33707d6, 0xf4d50d87, 0x455a14ed, 0xa9e3e905, 0xfcefa3f8, 0x676f02d9, 0x8d2a4c8a, 0xfffa3942, 0x8771f681, 0x6d9d6122, 0xfde5380c, 0xa4beea44, 0x4bdecfa9, 0xf6bb4b60, 0xbebfbc70, 0x289b7ec6, 0xeaa127fa, 0xd4ef3085, 0x04881d05, 0xd9d4d039, 0xe6db99e5, 0x1fa27cf8, 0xc4ac5665, 0xf4292244, 0x432aff97, 0xab9423a7, 0xfc93a039, 0x655b59c3, 0x8f0ccc92, 0xffeff47d, 0x85845dd1, 0x6fa87e4f, 0xfe2ce6e0, 0xa3014314, 0x4e0811a1, 0xf7537e82, 0xbd3af235, 0x2ad7d2bb, 0xeb86d391]"

definition S_md5 :: "nat list" where
  "S_md5 = [7, 12, 17, 22, 7, 12, 17, 22, 7, 12, 17, 22, 7, 12, 17, 22,
            5, 9, 14, 20, 5, 9, 14, 20, 5, 9, 14, 20, 5, 9, 14, 20,
            4, 11, 16, 23, 4, 11, 16, 23, 4, 11, 16, 23, 4, 11, 16, 23,
            6, 10, 15, 21, 6, 10, 15, 21, 6, 10, 15, 21, 6, 10, 15, 21]"

definition le32 :: "string \<Rightarrow> w32" where
  "le32 bs = foldr (\<lambda>c w. push_bit 8 w OR of_nat (of_char c)) (take 4 bs) 0"

definition le32_bytes :: "w32 \<Rightarrow> string" where
  "le32_bytes w = [char_of (unat w), char_of (unat (drop_bit 8 w)), char_of (unat (drop_bit 16 w)), char_of (unat (drop_bit 24 w))]"

definition le64_bytes :: "64 word \<Rightarrow> string" where
  "le64_bytes w = map (\<lambda>i. char_of (unat (drop_bit (8 * i) w))) [0, 1, 2, 3, 4, 5, 6, 7]"

definition md5_pad :: "string \<Rightarrow> string" where
  "md5_pad m = m @ [CHR 0x80] @ replicate ((119 - length m mod 64) mod 64) (CHR 0x00) @
     le64_bytes (of_nat (8 * length m))"

type_synonym st_md5 = "w32 \<times> w32 \<times> w32 \<times> w32"

fun round_md5 :: "w32 list \<Rightarrow> st_md5 \<Rightarrow> nat \<Rightarrow> st_md5" where
  "round_md5 M (a, b, c, d) i =
     (let f = (if i < 16 then (b AND c) OR (NOT b AND d)
               else if i < 32 then (d AND b) OR (NOT d AND c)
               else if i < 48 then b XOR c XOR d
               else c XOR (b OR NOT d));
          g = (if i < 16 then i
               else if i < 32 then (5 * i + 1) mod 16
               else if i < 48 then (3 * i + 5) mod 16
               else (7 * i) mod 16)
      in (d, b + word_rotl (S_md5 ! i) (f + a + T_md5 ! i + M ! g), b, c))"

fun add_md5 :: "st_md5 \<Rightarrow> st_md5 \<Rightarrow> st_md5" where
  "add_md5 (a, b, c, d) (a', b', c', d') = (a + a', b + b', c + c', d + d')"

definition compress_md5 :: "st_md5 \<Rightarrow> string \<Rightarrow> st_md5" where
  "compress_md5 s block = add_md5 s (foldl (round_md5 (map le32 (chunks 16 4 block))) s [0..<64])"

definition H_md5 :: st_md5 where
  "H_md5 = (0x67452301, 0xefcdab89, 0x98badcfe, 0x10325476)"

fun out_md5 :: "st_md5 \<Rightarrow> string" where
  "out_md5 (a, b, c, d) = concat (map le32_bytes [a, b, c, d])"

definition md5_Sum :: "string \<Rightarrow> string" where
  "md5_Sum m = out_md5 (foldl compress_md5 H_md5 (chunks (length (md5_pad m) div 64) 64 (md5_pad m)))"

definition encodeStd :: "nat \<Rightarrow> char" where
  "encodeStd n = (if n < 26 then char_of (65 + n) else if n < 52 then char_of (71 + n)
                  else if n < 62 then char_of (n - 4) else if n = 62 then CHR ''+'' else CHR ''/'')"

fun base64_EncodeToString :: "string \<Rightarrow> string" where
  "base64_EncodeToString [] = []"
| "base64_EncodeToString [a] =
     [encodeStd (of_char a div 4), encodeStd (of_char a mod 4 * 16), CHR ''='', CHR ''='']"
| "base64_EncodeToString [a, b] =
     [encodeStd (of_char a div 4), encodeStd (of_char a mod 4 * 16 + of_char b div 16),
      encodeStd (of_char b mod 16 * 4), CHR ''='']"
| "base64_EncodeToString (a # b # c # rest) =
     [encodeStd (of_char a div 4), encodeStd (of_char a mod 4 * 16 + of_char b div 16),
      encodeStd (of_char b mod 16 * 4 + of_char c div 64), encodeStd (of_char c mod 64)]
     @ base64_EncodeToString rest"

definition decodeStd :: "char \<Rightarrow> nat option" where
  "decodeStd c = (let n = of_char c :: nat in
     if 65 \<le> n \<and> n \<le> 90 then Some (n - 65)
     else if 97 \<le> n \<and> n \<le> 122 then Some (n - 71)
     else if 48 \<le> n \<and> n \<le> 57 then Some (n + 4)
     else if n = 43 then Some 62
     else if n = 47 then Some 63
     else None)"

fun decode_quanta :: "string \<Rightarrow> string option" where
  "decode_quanta [] = Some []"
| "decode_quanta (p # q # r # s # rest) =
     (case (decodeStd p, decodeStd q) of
        (Some x, Some y) \<Rightarrow>
          (if r = CHR ''='' then
             (if s = CHR ''='' \<and> rest = [] then Some [char_of (x * 4 + y div 16)] else None)
           else
             (case decodeStd r of
                None \<Rightarrow> None
              | Some z \<Rightarrow>
                  (if s = CHR ''='' then
                     (if rest = [] then Some [char_of (x * 4 + y div 16), char_of (y mod 16 * 16 + z div 4)]
                      else None)
                   else
                     (case decodeStd s of
                        None \<Rightarrow> None
                      | Some w \<Rightarrow>
                          map_option (\<lambda>bs. char_of (x * 4 + y div 16) # char_of (y mod 16 * 16 + z div 4) #
                                            char_of (z mod 4 * 64 + w) # bs)
                            (decode_quanta rest)))))
      | _ \<Rightarrow> None)"
| "decode_quanta _ = None"

definition base64_DecodeString :: "string \<Rightarrow> string option" where
  "base64_DecodeString s = decode_quanta (filter (\<lambda>c. c \<noteq> CHR 0x0D \<and> c \<noteq> CHR 0x0A) s)"


text \<open>Letters of ASCII, as bytes.\<close>

definition lower_byte :: "char \<Rightarrow> char" where
  "lower_byte c = (if 65 \<le> (of_char c :: nat) \<and> (of_char c :: nat) \<le> 90
                   then char_of ((of_char c :: nat) + 32) else c)"

definition upper_byte :: "char \<Rightarrow> char" where
  "upper_byte c = (if 97 \<le> (of_char c :: nat) \<and> (of_char c :: nat) \<le> 122
                   then char_of ((of_char c :: nat) - 32) else c)"


section \<open>JSON texts (encoding/json)\<close>

text \<open>
  The reading side of \<open>encoding/json\<close>: a scanner for the grammar of RFC 8259 as Go accepts it
  (one value, surrounded by optional white space), producing the value read.  A number keeps its
  literal text, as Go's scanner does until a destination type is known.  An object keeps, for each
  member, the key, the text of the member's value as it stands in the input (what a field of type
  \<open>json.RawMessage\<close> receives) and the value.
\<close>

datatype json =
    JNull
  | JBool bool
  | JNumber string
  | JString string
  | JArray "json list"
  | JObject "(string \<times> string \<times> json) list"

text \<open>\<open>scanner.pushParseState\<close> refuses to open an array or an object when more than
  \<open>maxNestingDepth\<close> of them would be open at once.\<close>

definition maxNestingDepth :: nat where
  "maxNestingDepth = 10000"

text \<open>The message of a \<open>*json.SyntaxError\<close> names the offending byte and its offset; one text
  stands here for all of them.\<close>

definition json_SyntaxError :: string where
  "json_SyntaxError = ''invalid character or unexpected end of JSON input''"

definition isSpace :: "char \<Rightarrow> bool" where
  "isSpace c = (c = CHR '' '' \<or> c = CHR 0x09 \<or> c = CHR 0x0D \<or> c = CHR 0x0A)"

definition skipSpace :: "string \<Rightarrow> string" where
  "skipSpace s = dropWhile isSpace s"

definition isDigit :: "char \<Rightarrow> bool" where
  "isDigit c = (48 \<le> (of_char c :: nat) \<and> (of_char c :: nat) \<le> 57)"

definition hexval :: "char \<Rightarrow> nat option" where
  "hexval c = (let n = of_char c :: nat in
     if 48 \<le> n \<and> n \<le> 57 then Some (n - 48)
     else if 97 \<le> n \<and> n \<le> 102 then Some (n - 87)
     else if 65 \<le> n \<and> n \<le> 70 then Some (n - 55)
     else None)"

definition getu4 :: "char \<Rightarrow> char \<Rightarrow> char \<Rightarrow> char \<Rightarrow> nat option" where
  "getu4 a b c d =
     (case (hexval a, hexval b, hexval c, hexval d) of
        (Some p, Some q, Some r, Some s) \<Rightarrow> Some (((p * 16 + q) * 16 + r) * 16 + s)
      | _ \<Rightarrow> None)"

definition utf8_EncodeRune :: "nat \<Rightarrow> string" where
  "utf8_EncodeRune r =
     (if r < 0x80 then [char_of r]
      else if r < 0x800 then [char_of (0xC0 + r div 64), char_of (0x80 + r mod 64)]
      else if r < 0x10000 then
        [char_of (0xE0 + r div 4096), char_of (0x80 + r div 64 mod 64), char_of (0x80 + r mod 64)]
      else
        [char_of (0xF0 + r div 262144), char_of (0x80 + r div 4096 mod 64),
         char_of (0x80 + r div 64 mod 64), char_of (0x80 + r mod 64)])"

text \<open>\<open>utf8.DecodeRune\<close>: the rune at the head of the bytes and the number of bytes it takes;
  \<open>RuneError\<close> (U+FFFD) with size 1 when the bytes do not start with the UTF-8 encoding of a rune
  (a stray continuation byte, an overlong form, a surrogate, a value above U+10FFFF, a sequence cut
  short).\<close>

definition RuneError :: nat where
  "RuneError = 0xFFFD"

definition utf8_DecodeRune :: "string \<Rightarrow> nat \<times> nat" where
  "utf8_DecodeRune p =
     (case p of
        [] \<Rightarrow> (RuneError, 0)
      | c0 # p1 \<Rightarrow>
          (let b0 = of_char c0 :: nat in
           if b0 < 0x80 then (b0, 1)
           else if b0 < 0xC2 \<or> 0xF4 < b0 then (RuneError, 1)
           else
             (case p1 of
                [] \<Rightarrow> (RuneError, 1)
              | c1 # p2 \<Rightarrow>
                  (let b1 = of_char c1 :: nat;
                       lo = (if b0 = 0xE0 then 0xA0 else if b0 = 0xF0 then 0x90 else 0x80);
                       hi = (if b0 = 0xED then 0x9F else if b0 = 0xF4 then 0x8F else 0xBF)
                   in if b1 < lo \<or> hi < b1 then (RuneError, 1)
                      else if b0 < 0xE0 then (b0 mod 32 * 64 + b1 mod 64, 2)
                      else
                        (case p2 of
                           [] \<Rightarrow> (RuneError, 1)
                         | c2 # p3 \<Rightarrow>
                             (let b2 = of_char c2 :: nat in
                              if b2 < 0x80 \<or> 0xBF < b2 then (RuneError, 1)
                              else if b0 < 0xF0 then ((b0 mod 16 * 64 + b1 mod 64) * 64 + b2 mod 64, 3)
                              else
                                (case p3 of
                                   [] \<Rightarrow> (RuneError, 1)
                                 | c3 # p4 \<Rightarrow>
                                     (let b3 = of_char c3 :: nat in
                                      if b3 < 0x80 \<or> 0xBF < b3 then (RuneError, 1)
                                      else (((b0 mod 8 * 64 + b1 mod 64) * 64 + b2 mod 64) * 64 +
                                            b3 mod 64, 4)))))))))"

text \<open>
  \<open>unquoteBytes\<close>, reading up to the closing quote: an escape is replaced by what it stands for, a
  \<open>\u\<close> escape by the UTF-8 encoding of its rune, with surrogate pairs joined and a lone surrogate
  replaced by U+FFFD; bytes above 0x7F are decoded as UTF-8 and encoded again, so that each byte
  that is not part of a valid encoding becomes U+FFFD.  A control byte or an unknown escape is
  refused, as the scanner refuses them.
\<close>

definition unescape :: "char \<Rightarrow> char option" where
  "unescape e =
     (if e = CHR 0x22 \<or> e = CHR 0x5C \<or> e = CHR ''/'' then Some e
      else if e = CHR ''b'' then Some (CHR 0x08)
      else if e = CHR ''f'' then Some (CHR 0x0C)
      else if e = CHR ''n'' then Some (CHR 0x0A)
      else if e = CHR ''r'' then Some (CHR 0x0D)
      else if e = CHR ''t'' then Some (CHR 0x09)
      else None)"

fun prepend :: "'a list \<Rightarrow> ('a list \<times> 'b) option \<Rightarrow> ('a list \<times> 'b) option" where
  "prepend xs None = None"
| "prepend xs (Some (ys, r)) = Some (xs @ ys, r)"

fun low_surrogate :: "string \<Rightarrow> nat option" where
  "low_surrogate (b # u # l1 # l2 # l3 # l4 # cs) =
     (if b = CHR 0x5C \<and> u = CHR ''u'' then
        (case getu4 l1 l2 l3 l4 of
           None \<Rightarrow> None
         | Some lo \<Rightarrow> if 0xDC00 \<le> lo \<and> lo < 0xE000 then Some lo else None)
      else None)"
| "low_surrogate _ = None"

fun scan_string :: "string \<Rightarrow> (string \<times> string) option" where
  "scan_string [] = None"
| "scan_string (c # cs) =
     (if c = CHR 0x22 then Some ([], cs)
      else if c = CHR 0x5C then
        (case cs of
           [] \<Rightarrow> None
         | e # cs1 \<Rightarrow>
             (if e = CHR ''u'' then
                (case cs1 of
                   h1 # h2 # h3 # h4 # cs2 \<Rightarrow>
                     (case getu4 h1 h2 h3 h4 of
                        None \<Rightarrow> None
                      | Some r \<Rightarrow>
                          (if 0xD800 \<le> r \<and> r < 0xDC00 then
                             (case low_surrogate cs2 of
                                Some lo \<Rightarrow>
                                  prepend (utf8_EncodeRune ((r - 0xD800) * 1024 + (lo - 0xDC00) + 0x10000))
                                    (scan_string (drop 6 cs2))
                              | None \<Rightarrow> prepend (utf8_EncodeRune RuneError) (scan_string cs2))
                           else if 0xDC00 \<le> r \<and> r < 0xE000 then
                             prepend (utf8_EncodeRune RuneError) (scan_string cs2)
                           else prepend (utf8_EncodeRune r) (scan_string cs2)))
                 | _ \<Rightarrow> None)
              else
                (case unescape e of
                   None \<Rightarrow> None
                 | Some d \<Rightarrow> prepend [d] (scan_string cs1))))
      else if (of_char c :: nat) < 0x20 then None
      else if (of_char c :: nat) < 0x80 then prepend [c] (scan_string cs)
      else
        (case utf8_DecodeRune (c # cs) of
           (rr, n) \<Rightarrow> prepend (utf8_EncodeRune rr) (scan_string (drop (n - 1) cs))))"

definition scan_digits :: "string \<Rightarrow> (string \<times> string) option" where
  "scan_digits s = (if takeWhile isDigit s = [] then None else Some (takeWhile isDigit s, dropWhile isDigit s))"

definition scan_int :: "string \<Rightarrow> (string \<times> string) option" where
  "scan_int s =
     (case s of
        [] \<Rightarrow> None
      | d # r \<Rightarrow> if d = CHR ''0'' then Some ([d], r) else scan_digits s)"

definition scan_frac :: "string \<Rightarrow> (string \<times> string) option" where
  "scan_frac s =
     (case s of
        [] \<Rightarrow> Some ([], s)
      | d # r \<Rightarrow> if d = CHR ''.'' then prepend [d] (scan_digits r) else Some ([], s))"

definition scan_exp :: "string \<Rightarrow> (string \<times> string) option" where
  "scan_exp s =
     (case s of
        [] \<Rightarrow> Some ([], s)
      | e # r \<Rightarrow>
          if e = CHR ''e'' \<or> e = CHR ''E'' then
            (case r of
               [] \<Rightarrow> None
             | sg # r' \<Rightarrow> if sg = CHR ''+'' \<or> sg = CHR ''-'' then prepend [e, sg] (scan_digits r')
                         else prepend [e] (scan_digits r))
          else Some ([], s))"

definition scan_number :: "string \<Rightarrow> (string \<times> string) option" where
  "scan_number s =
     (case s of
        [] \<Rightarrow> None
      | c # r \<Rightarrow>
          (case scan_int (if c = CHR ''-'' then r else s) of
             None \<Rightarrow> None
           | Some (i, r1) \<Rightarrow>
               (case scan_frac r1 of
                  None \<Rightarrow> None
                | Some (f, r2) \<Rightarrow>
                    (case scan_exp r2 of
                       None \<Rightarrow> None
                     | Some (e, r3) \<Rightarrow> Some ((if c = CHR ''-'' then [c] else []) @ i @ f @ e, r3)))))"

fun apfst_opt :: "('a \<Rightarrow> 'c) \<Rightarrow> ('a \<times> 'b) option \<Rightarrow> ('c \<times> 'b) option" where
  "apfst_opt f None = None"
| "apfst_opt f (Some (x, r)) = Some (f x, r)"

text \<open>What was read of \<open>s\<close> when \<open>r\<close> is left of it: the text between the start of \<open>s\<close> and
  the start of its suffix \<open>r\<close>.\<close>

definition consumed :: "string \<Rightarrow> string \<Rightarrow> string" where
  "consumed s r = take (length s - length r) s"

text \<open>
  The scanner proper.  The recursion is bounded by a fuel that a text cannot exhaust before it
  ends (two units for each byte); \<open>depth\<close> is the number of arrays and objects open around the
  value being read.
\<close>

fun scan_value :: "nat \<Rightarrow> nat \<Rightarrow> string \<Rightarrow> (json \<times> string) option"
  and scan_elements :: "nat \<Rightarrow> nat \<Rightarrow> string \<Rightarrow> (json list \<times> string) option"
  and scan_members :: "nat \<Rightarrow> nat \<Rightarrow> string \<Rightarrow> ((string \<times> string \<times> json) list \<times> string) option" where
  "scan_value 0 depth s = None"
| "scan_value (Suc n) depth s =
     (case skipSpace s of
        [] \<Rightarrow> None
      | c # cs \<Rightarrow>
          (if c = CHR ''{'' then
             (if maxNestingDepth < Suc depth then None
              else
                (case skipSpace cs of
                   [] \<Rightarrow> None
                 | d # ds \<Rightarrow> if d = CHR ''}'' then Some (JObject [], ds)
                            else apfst_opt JObject (scan_members n (Suc depth) (d # ds))))
           else if c = CHR ''['' then
             (if maxNestingDepth < Suc depth then None
              else
                (case skipSpace cs of
                   [] \<Rightarrow> None
                 | d # ds \<Rightarrow> if d = CHR '']'' then Some (JArray [], ds)
                            else apfst_opt JArray (scan_elements n (Suc depth) (d # ds))))
           else if c = CHR 0x22 then apfst_opt JString (scan_string cs)
           else if take 4 (c # cs) = ''true'' then Some (JBool True, drop 4 (c # cs))
           else if take 5 (c # cs) = ''false'' then Some (JBool False, drop 5 (c # cs))
           else if take 4 (c # cs) = ''null'' then Some (JNull, drop 4 (c # cs))
           else apfst_opt JNumber (scan_number (c # cs))))"
| "scan_elements 0 depth s = None"
| "scan_elements (Suc n) depth s =
     (case scan_value n depth s of
        None \<Rightarrow> None
      | Some (v, r) \<Rightarrow>
          (case skipSpace r of
             [] \<Rightarrow> None
           | c # cs \<Rightarrow>
               if c = CHR '','' then prepend [v] (scan_elements n depth cs)
               else if c = CHR '']'' then Some ([v], cs)
               else None))"
| "scan_members 0 depth s = None"
| "scan_members (Suc n) depth s =
     (case skipSpace s of
        [] \<Rightarrow> None
      | q # s1 \<Rightarrow>
          (if q = CHR 0x22 then
             (case scan_string s1 of
                None \<Rightarrow> None
              | Some (k, s2) \<Rightarrow>
                  (case skipSpace s2 of
                     [] \<Rightarrow> None
                   | colon # s3 \<Rightarrow>
                       (if colon = CHR '':'' then
                          (case scan_value n depth s3 of
                             None \<Rightarrow> None
                           | Some (v, s4) \<Rightarrow>
                               (case skipSpace s4 of
                                  [] \<Rightarrow> None
                                | c # cs \<Rightarrow>
                                    if c = CHR '','' then
                                      prepend [(k, consumed (skipSpace s3) s4, v)] (scan_members n depth cs)
                                    else if c = CHR ''}'' then Some ([(k, consumed (skipSpace s3) s4, v)], cs)
                                    else None))
                        else None)))
           else None))"

definition json_parse :: "string \<Rightarrow> json option" where
  "json_parse data =
     (case scan_value (2 * length data + 2) 0 data of
        None \<Rightarrow> None
      | Some (v, r) \<Rightarrow> if skipSpace r = [] then Some v else None)"







text \<open>
  Decoding into the anonymous struct of \<open>request\<close>,
  \<open>struct { Status int `json:"status"`; Error struct { Type string `json:"type"`; Message string `json:"message"` } `json:"error"` }\<close>:
  \<open>null\<close> leaves a destination as it is, unknown keys are skipped, a later duplicate overwrites,
  and a value of the wrong kind is an error.  \<open>Status\<close> is an \<open>int\<close> (64 bits): the literal must
  be an integer in range.
\<close>

record apiError =
  Status :: int
  Type :: string
  Message :: string

text \<open>
  A key selects the field whose name it equals, or else the field whose name it equals under
  Unicode simple case folding (\<open>foldName\<close>).  Folding maps a letter of ASCII to its upper case; the
  only runes outside ASCII that fold to a letter of ASCII are U+017F (long s), to \<open>S\<close>, and U+212A
  (Kelvin sign), to \<open>K\<close>.  Every other rune folds to a rune outside ASCII and is kept as it is
  here, which decides no comparison: the names of the fields are ASCII.
\<close>

fun foldName :: "string \<Rightarrow> string" where
  "foldName [] = []"
| "foldName (c # cs) =
     (if (of_char c :: nat) < 0x80 then upper_byte c # foldName cs
      else if take 2 (c # cs) = [CHR 0xC5, CHR 0xBF] then CHR ''S'' # foldName (drop 1 cs)
      else if take 3 (c # cs) = [CHR 0xE2, CHR 0x84, CHR 0xAA] then CHR ''K'' # foldName (drop 2 cs)
      else c # foldName cs)"

definition equalFold :: "string \<Rightarrow> string \<Rightarrow> bool" where
  "equalFold s t = (foldName s = foldName t)"

definition digits_value :: "string \<Rightarrow> int" where
  "digits_value ds = foldl (\<lambda>n d. 10 * n + (int (of_char d) - 48)) 0 ds"

definition decode_int :: "string \<Rightarrow> int option" where
  "decode_int lit =
     (let neg = (take 1 lit = ''-'');
          ds = (if neg then drop 1 lit else lit);
          v = (if neg then - digits_value ds else digits_value ds)
      in if ds \<noteq> [] \<and> list_all isDigit ds \<and> - (2 ^ 63) \<le> v \<and> v < 2 ^ 63 then Some v else None)"

fun decode_error_fields :: "(string \<times> string \<times> json) list \<Rightarrow> apiError \<Rightarrow> string + apiError" where
  "decode_error_fields [] a = Inr a"
| "decode_error_fields ((k, raw, v) # kvs) a =
     (if equalFold k ''type'' then
        (case v of
           JNull \<Rightarrow> decode_error_fields kvs a
         | JString s \<Rightarrow> decode_error_fields kvs (a\<lparr>Type := s\<rparr>)
         | _ \<Rightarrow> Inl ''json: cannot unmarshal into Go struct field .error.type of type string'')
      else if equalFold k ''message'' then
        (case v of
           JNull \<Rightarrow> decode_error_fields kvs a
         | JString s \<Rightarrow> decode_error_fields kvs (a\<lparr>Message := s\<rparr>)
         | _ \<Rightarrow> Inl ''json: cannot unmarshal into Go struct field .error.message of type string'')
      else decode_error_fields kvs a)"

fun decode_apiError_fields :: "(string \<times> string \<times> json) list \<Rightarrow> apiError \<Rightarrow> string + apiError" where
  "decode_apiError_fields [] a = Inr a"
| "decode_apiError_fields ((k, raw, v) # kvs) a =
     (if equalFold k ''status'' then
        (case v of
           JNull \<Rightarrow> decode_apiError_fields kvs a
         | JNumber lit \<Rightarrow>
             (case decode_int lit of
                None \<Rightarrow> Inl ''json: cannot unmarshal number into Go struct field .status of type int''
              | Some n \<Rightarrow> decode_apiError_fields kvs (a\<lparr>Status := n\<rparr>))
         | _ \<Rightarrow> Inl ''json: cannot unmarshal into Go struct field .status of type int'')
      else if equalFold k ''error'' then
        (case v of
           JNull \<Rightarrow> decode_apiError_fields kvs a
         | JObject fs \<Rightarrow>
             (case decode_error_fields fs a of
                Inl e \<Rightarrow> Inl e
              | Inr a' \<Rightarrow> decode_apiError_fields kvs a')
         | _ \<Rightarrow> Inl ''json: cannot unmarshal into Go struct field .error of type struct'')
      else decode_apiError_fields kvs a)"

definition json_Unmarshal_apiError :: "string \<Rightarrow> string + apiError" where
  "json_Unmarshal_apiError data =
     (case json_parse data of
        None \<Rightarrow> Inl json_SyntaxError
      | Some JNull \<Rightarrow> Inr \<lparr>Status = 0, Type = [], Message = []\<rparr>
      | Some (JObject kvs) \<Rightarrow> decode_apiError_fields kvs \<lparr>Status = 0, Type = [], Message = []\<rparr>
      | Some _ \<Rightarrow> Inl ''json: cannot unmarshal into Go value of type struct'')"

text \<open>
  Decoding into \<open>struct { Content json.RawMessage `json:"content"` }\<close>.  A \<open>RawMessage\<close> takes the
  text of the value found under the key, byte for byte (also the text \<open>null\<close>); \<open>None\<close> is the
  \<open>nil\<close> RawMessage of an envelope without the key.
\<close>

fun decode_content_fields :: "(string \<times> string \<times> json) list \<Rightarrow> string option \<Rightarrow> string option" where
  "decode_content_fields [] content = content"
| "decode_content_fields ((k, raw, v) # kvs) content =
     (if equalFold k ''content'' then decode_content_fields kvs (Some raw)
      else decode_content_fields kvs content)"

definition json_Unmarshal_apiResponse :: "string \<Rightarrow> string + string option" where
  "json_Unmarshal_apiResponse data =
     (case json_parse data of
        None \<Rightarrow> Inl json_SyntaxError
      | Some JNull \<Rightarrow> Inr None
      | Some (JObject kvs) \<Rightarrow> Inr (decode_content_fields kvs None)
      | Some _ \<Rightarrow> Inl ''json: cannot unmarshal into Go value of type struct'')"


section \<open>The HTTP client (Client)\<close>

subsection \<open>Strings and formatting\<close>

text \<open>\<open>strings.ToUpper\<close> on bytes: the letters \<open>a\<close> to \<open>z\<close> are mapped, every other byte is kept.
  This is Go's function on ASCII text; the methods the client passes are the constants
  \<open>GET\<close>, \<open>POST\<close>, \<open>PUT\<close> and \<open>DELETE\<close>.\<close>

definition strings_ToUpper :: "string \<Rightarrow> string" where
  "strings_ToUpper s = map upper_byte s"

definition strings_HasPrefix :: "string \<Rightarrow> string \<Rightarrow> bool" where
  "strings_HasPrefix s pre = (take (length pre) s = pre)"

fun strings_Contains :: "string \<Rightarrow> string \<Rightarrow> bool" where
  "strings_Contains [] substr = (substr = [])"
| "strings_Contains (c # s) substr = (strings_HasPrefix (c # s) substr \<or> strings_Contains s substr)"

definition strings_TrimRight :: "string \<Rightarrow> char \<Rightarrow> string" where
  "strings_TrimRight s c = rev (dropWhile (\<lambda>x. x = c) (rev s))"

subsection \<open>Credentials, client and signature\<close>

record Credentials =
  cred_accessKeyID :: string
  cred_accessKeySecret :: string

definition NewCredentials :: "string \<Rightarrow> string \<Rightarrow> Credentials" where
  "NewCredentials accessKeyID' accessKeySecret' =
     \<lparr>cred_accessKeyID = accessKeyID', cred_accessKeySecret = accessKeySecret'\<rparr>"

record Client =
  accessKeyID :: string
  accessKeySecret :: string
  baseURL :: string
  sdkName :: string
  sdkVersion :: string

definition newClient :: "string \<Rightarrow> string \<Rightarrow> string \<Rightarrow> Client" where
  "newClient accessKeyID' accessKeySecret' baseURL' =
     \<lparr>accessKeyID = accessKeyID', accessKeySecret = accessKeySecret',
      baseURL = strings_TrimRight baseURL' (CHR ''/''),
      sdkName = ''lara-go'', sdkVersion = ''1.0.3''\<rparr>"

definition sign :: "Client \<Rightarrow> string \<Rightarrow> string \<Rightarrow> string \<Rightarrow> string \<Rightarrow> string \<Rightarrow> string" where
  "sign c method path contentMD5 contentType date =
     (let stringToSign =
            Sprintf ''%s\<newline>%s\<newline>%s\<newline>%s\<newline>%s''
              [strings_ToUpper method, path, contentMD5, contentType, date];
          signature = hmac_sha256 (accessKeySecret c) stringToSign
      in base64_EncodeToString signature)"

text \<open>The signature as the specification words it: the five fields joined by newline
  characters.\<close>

fun joined :: "string \<Rightarrow> string list \<Rightarrow> string" where
  "joined sep [] = []"
| "joined sep [x] = x"
| "joined sep (x # y # xs) = x @ sep @ joined sep (y # xs)"

subsection \<open>Headers (net/http.Header)\<close>

text \<open>A header map is keyed by canonical names.  \<open>textproto.CanonicalMIMEHeaderKey\<close> upper-cases
  the first letter and every letter after a hyphen and lower-cases the others, and returns a key
  holding a byte that is not a token character unchanged.\<close>

definition validHeaderFieldByte :: "char \<Rightarrow> bool" where
  "validHeaderFieldByte c =
     (let n = of_char c :: nat in
        (48 \<le> n \<and> n \<le> 57) \<or> (65 \<le> n \<and> n \<le> 90) \<or> (97 \<le> n \<and> n \<le> 122) \<or>
        c \<in> set ''!#$%&*+-.^_`|~'' \<or> n = 39)"

fun canonical :: "bool \<Rightarrow> string \<Rightarrow> string" where
  "canonical upper [] = []"
| "canonical upper (c # cs) =
     (if upper then upper_byte c else lower_byte c) # canonical (c = CHR ''-'') cs"

definition CanonicalMIMEHeaderKey :: "string \<Rightarrow> string" where
  "CanonicalMIMEHeaderKey s = (if list_all validHeaderFieldByte s then canonical True s else s)"

type_synonym Header = "string \<Rightarrow> string option"

definition Header_Set :: "Header \<Rightarrow> string \<Rightarrow> string \<Rightarrow> Header" where
  "Header_Set h key v = h(CanonicalMIMEHeaderKey key \<mapsto> v)"

definition Header_Get :: "Header \<Rightarrow> string \<Rightarrow> string" where
  "Header_Get h key = (case h (CanonicalMIMEHeaderKey key) of None \<Rightarrow> [] | Some v \<Rightarrow> v)"

text \<open>\<open>for k, v := range headers { req.Header.Set(k, v) }\<close>, the caller's map given as the list
  of its entries in the order the iteration visits them.\<close>

fun set_all :: "Header \<Rightarrow> (string \<times> string) list \<Rightarrow> Header" where
  "set_all h [] = h"
| "set_all h ((k, v) # kvs) = set_all (Header_Set h k v) kvs"

subsection \<open>Multipart bodies (mime/multipart.Writer)\<close>

datatype part =
    FormFile string string string
  | FormField string string

fun part_name :: "part \<Rightarrow> string" where
  "part_name (FormFile fieldname filename data) = fieldname"
| "part_name (FormField fieldname v) = fieldname"

fun part_data :: "part \<Rightarrow> string" where
  "part_data (FormFile fieldname filename data) = data"
| "part_data (FormField fieldname v) = v"

definition escapeQuotes :: "string \<Rightarrow> string" where
  "escapeQuotes s = concat (map (\<lambda>c. if c = CHR 0x5C then [CHR 0x5C, CHR 0x5C]
                                       else if c = CHR 0x22 then [CHR 0x5C, CHR 0x22] else [c]) s)"

definition CRLF :: string where
  "CRLF = [CHR 0x0D, CHR 0x0A]"

fun part_bytes :: "part \<Rightarrow> string" where
  "part_bytes (FormFile fieldname filename data) =
     ''Content-Disposition: form-data; name='' @ [CHR 0x22] @ escapeQuotes fieldname @ [CHR 0x22] @
     ''; filename='' @ [CHR 0x22] @ escapeQuotes filename @ [CHR 0x22] @ CRLF @
     ''Content-Type: application/octet-stream'' @ CRLF @ CRLF @ data"
| "part_bytes (FormField fieldname v) =
     ''Content-Disposition: form-data; name='' @ [CHR 0x22] @ escapeQuotes fieldname @ [CHR 0x22] @
     CRLF @ CRLF @ v"

fun multipart_parts :: "string \<Rightarrow> bool \<Rightarrow> part list \<Rightarrow> string" where
  "multipart_parts boundary first [] = []"
| "multipart_parts boundary first (p # ps) =
     (if first then [] else CRLF) @ ''--'' @ boundary @ CRLF @ part_bytes p @
     multipart_parts boundary False ps"

definition multipart_bytes :: "string \<Rightarrow> part list \<Rightarrow> string" where
  "multipart_bytes boundary ps = multipart_parts boundary True ps @ CRLF @ ''--'' @ boundary @ ''--'' @ CRLF"

definition FormDataContentType :: "string \<Rightarrow> string" where
  "FormDataContentType boundary =
     ''multipart/form-data; boundary='' @
     (if list_ex (\<lambda>c. c \<in> set ''()<>@,;:/[]?= '' \<or> c = CHR 0x5C \<or> c = CHR 0x22) boundary
      then [CHR 0x22] @ boundary @ [CHR 0x22] else boundary)"


subsection \<open>One request\<close>

text \<open>
  What \<open>request\<close> takes from outside the repository during one call is gathered in a \<open>world\<close>:
  \<^item> \<open>json_Marshal\<close>: \<open>json.Marshal(body)\<close> for the caller's value, the bytes or the message of
    its failure;
  \<^item> \<open>url_Encode\<close>: \<open>url.Values.Encode\<close> of the query parameters;
  \<^item> \<open>boundary\<close>: the random boundary \<open>multipart.NewWriter\<close> draws;
  \<^item> \<open>httpDate\<close>: \<open>time.Now().UTC().Format(http.TimeFormat)\<close>;
  \<^item> \<open>http_NewRequest\<close>: the message of the failure of \<open>http.NewRequest(method, url, body)\<close>,
    if it fails;
  \<^item> \<open>Do\<close>: what the network answers to the request sent.

  An attachment \<open>io.Reader\<close> is the content \<open>io.Copy\<close> reads from it, or the message of the read
  failure.  The answer of the network is the failure of \<open>httpClient.Do\<close>, or a status code with
  what \<open>io.ReadAll(resp.Body)\<close> gives.
\<close>

record http_Request =
  Method :: string
  URL :: string
  Body :: "string option"
  Headers :: Header

datatype answer =
    DoError string
  | Response int "string + string"

record 'b world =
  json_Marshal :: "'b \<Rightarrow> string + string"
  url_Encode :: "(string \<times> string) list \<Rightarrow> string"
  boundary :: string
  httpDate :: string
  http_NewRequest :: "string \<Rightarrow> string \<Rightarrow> string option"
  Do :: "http_Request \<Rightarrow> answer"

type_synonym reader = "string + string"

text \<open>Lines 60 to 68: one form file per attachment, named by its field key, in the order the
  map is visited.  (\<open>CreateFormFile\<close> writes to a \<open>bytes.Buffer\<close> and cannot fail.)\<close>

fun copy_files :: "(string \<times> reader) list \<Rightarrow> error + part list" where
  "copy_files [] = Inr []"
| "copy_files ((field, r) # files) =
     (case r of
        Inl msg \<Rightarrow> Inl (Wrapf ''failed to copy file data: '' (LibError msg))
      | Inr data \<Rightarrow>
          (case copy_files files of
             Inl err \<Rightarrow> Inl err
           | Inr ps \<Rightarrow> Inr (FormFile field field data # ps)))"

text \<open>Lines 53 to 92: the body, its MD5 and its content type.\<close>

definition request_body ::
  "'b world \<Rightarrow> 'b option \<Rightarrow> (string \<times> reader) list \<Rightarrow> error + (string option \<times> string \<times> string)" where
  "request_body w body files =
     (if length files > 0 then
        (case copy_files files of
           Inl err \<Rightarrow> Inl err
         | Inr ps \<Rightarrow>
             (case body of
                None \<Rightarrow>
                  (let bodyBytes = multipart_bytes (boundary w) ps
                   in Inr (Some bodyBytes, hex (md5_Sum bodyBytes), FormDataContentType (boundary w)))
              | Some b \<Rightarrow>
                  (case json_Marshal w b of
                     Inl msg \<Rightarrow> Inl (Wrapf ''failed to marshal body for multipart: '' (LibError msg))
                   | Inr jsonBytes \<Rightarrow>
                       (let bodyBytes = multipart_bytes (boundary w) (ps @ [FormField ''json'' jsonBytes])
                        in Inr (Some bodyBytes, hex (md5_Sum bodyBytes), FormDataContentType (boundary w))))))
      else
        (case body of
           Some b \<Rightarrow>
             (case json_Marshal w b of
                Inl msg \<Rightarrow> Inl (Wrapf ''failed to marshal request body: '' (LibError msg))
              | Inr bodyBytes \<Rightarrow> Inr (Some bodyBytes, hex (md5_Sum bodyBytes), ''application/json''))
         | None \<Rightarrow> Inr (None, [], [])))"

text \<open>Lines 99 to 108: the headers the client sets itself.\<close>

definition fixed_headers :: "'b world \<Rightarrow> Client \<Rightarrow> string \<Rightarrow> string \<Rightarrow> string \<Rightarrow> Header" where
  "fixed_headers w c method contentMD5 contentType =
     (let h = Header_Set Map.empty ''X-HTTP-Method-Override'' method;
          h = Header_Set h ''Date'' (httpDate w);
          h = Header_Set h ''X-Lara-SDK-Name'' (sdkName c);
          h = Header_Set h ''X-Lara-SDK-Version'' (sdkVersion c);
          h = (if contentType \<noteq> [] then Header_Set h ''Content-Type'' contentType else h);
          h = (if contentMD5 \<noteq> [] then Header_Set h ''Content-MD5'' contentMD5 else h)
      in h)"

text \<open>Lines 110 to 117: the caller's headers, then the signature.\<close>

definition signed_headers ::
  "Client \<Rightarrow> string \<Rightarrow> string \<Rightarrow> string \<Rightarrow> string \<Rightarrow> Header \<Rightarrow> (string \<times> string) list \<Rightarrow> Header" where
  "signed_headers c method path contentMD5 contentType h headers =
     (let h = set_all h headers
      in if accessKeyID c \<noteq> [] \<and> accessKeySecret c \<noteq> [] then
           (let signature = sign c method path contentMD5 contentType (Header_Get h ''Date'')
            in Header_Set h ''Authorization'' (''Lara '' @ accessKeyID c @ '':'' @ signature))
         else h)"

text \<open>Lines 40 to 117: the request that is handed to \<open>httpClient.Do\<close>.\<close>

definition request_prepare ::
  "'b world \<Rightarrow> Client \<Rightarrow> string \<Rightarrow> string \<Rightarrow> (string \<times> string) list \<Rightarrow> 'b option \<Rightarrow>
     (string \<times> reader) list \<Rightarrow> (string \<times> string) list \<Rightarrow> error + http_Request" where
  "request_prepare w c method path0 params body files headers =
     (let path = (if \<not> strings_HasPrefix path0 ''/'' then ''/'' @ path0 else path0);
          reqURL = baseURL c @ path @ (if length params > 0 then ''?'' @ url_Encode w params else [])
      in case request_body w body files of
           Inl err \<Rightarrow> Inl err
         | Inr (bodyReader, contentMD5, contentType) \<Rightarrow>
             (case http_NewRequest w method reqURL of
                Some msg \<Rightarrow> Inl (Wrapf ''failed to create request: '' (LibError msg))
              | None \<Rightarrow>
                  Inr \<lparr>Method = method, URL = reqURL, Body = bodyReader,
                       Headers = signed_headers c method path contentMD5 contentType
                                   (fixed_headers w c method contentMD5 contentType) headers\<rparr>))"

text \<open>Lines 119 to 151: the answer, classified.\<close>

definition request_answer :: "answer \<Rightarrow> error + string" where
  "request_answer a =
     (case a of
        DoError msg \<Rightarrow>
          if strings_Contains msg ''timeout'' then Inl (LaraTimeoutError msg)
          else Inl (LaraConnectionError msg)
      | Response StatusCode (Inl msg) \<Rightarrow> Inl (Wrapf ''failed to read response body: '' (LibError msg))
      | Response StatusCode (Inr respBody) \<Rightarrow>
          if StatusCode < 200 \<or> StatusCode \<ge> 300 then
            (case json_Unmarshal_apiError respBody of
               Inr apiError \<Rightarrow>
                 if Type apiError \<noteq> [] then
                   Inl (LaraError (Status apiError) (Type apiError) (Message apiError))
                 else Inl (Errorf (''API error: '' @ respBody))
             | Inl err \<Rightarrow> Inl (Errorf (''API error: '' @ respBody)))
          else Inr respBody)"

definition request ::
  "'b world \<Rightarrow> Client \<Rightarrow> string \<Rightarrow> string \<Rightarrow> (string \<times> string) list \<Rightarrow> 'b option \<Rightarrow>
     (string \<times> reader) list \<Rightarrow> (string \<times> string) list \<Rightarrow> error + string" where
  "request w c method path params body files headers =
     (case request_prepare w c method path params body files headers of
        Inl err \<Rightarrow> Inl err
      | Inr req \<Rightarrow> request_answer (Do w req))"

text \<open>A world for concrete runs: the body is already JSON text, nothing fails before the
  request is sent, and the network gives the answer \<open>a\<close> to whatever is sent.\<close>

definition world_answering :: "answer \<Rightarrow> string world" where
  "world_answering a =
     \<lparr>json_Marshal = Inr, url_Encode = (\<lambda>params. []), boundary = ''0123456789abcdef'',
      httpDate = ''Mon, 02 Jan 2006 15:04:05 GMT'', http_NewRequest = (\<lambda>method url. None),
      Do = (\<lambda>req. a)\<rparr>"

text \<open>\<open>handleContent\<close>.  The caller's destination is the function \<open>result\<close> that
  \<open>json.Unmarshal(raw, result)\<close> computes from the raw text: the failure, or what the destination
  holds afterwards.  A \<open>nil\<close> raw message is no JSON text.\<close>

definition handleContent :: "string \<Rightarrow> (string \<Rightarrow> error + 'r) \<Rightarrow> error + 'r" where
  "handleContent respBytes result =
     (case json_Unmarshal_apiResponse respBytes of
        Inl msg \<Rightarrow> Inl (Wrapf ''failed to parse API response: '' (LibError msg))
      | Inr None \<Rightarrow> Inl (LibError ''unexpected end of JSON input'')
      | Inr (Some Content) \<Rightarrow> result Content)"

definition Client_Get ::
  "'b world \<Rightarrow> Client \<Rightarrow> string \<Rightarrow> (string \<times> string) list \<Rightarrow> (string \<times> string) list \<Rightarrow>
     (string \<Rightarrow> error + 'r) \<Rightarrow> error + 'r" where
  "Client_Get w c path params headers result =
     (case request w c ''GET'' path params None [] headers of
        Inl err \<Rightarrow> Inl err
      | Inr respBytes \<Rightarrow> handleContent respBytes result)"

text \<open>\<open>client.Get(path, nil, nil, &dst)\<close>, the call every service makes to read a value: this is
  the \<open>client_Get\<close> the service functions above are given.\<close>

definition service_Get :: "'b world \<Rightarrow> Client \<Rightarrow> (string \<Rightarrow> error + 'r) \<Rightarrow> string \<Rightarrow> error + 'r" where
  "service_Get w c result path = Client_Get w c path [] [] result"

definition Client_Post ::
  "'b world \<Rightarrow> Client \<Rightarrow> string \<Rightarrow> 'b option \<Rightarrow> (string \<times> reader) list \<Rightarrow> (string \<times> string) list \<Rightarrow>
     (string \<Rightarrow> error + 'r) \<Rightarrow> error + 'r" where
  "Client_Post w c path body files headers result =
     (case request w c ''POST'' path [] body files headers of
        Inl err \<Rightarrow> Inl err
      | Inr respBytes \<Rightarrow> handleContent respBytes result)"

definition Client_Put ::
  "'b world \<Rightarrow> Client \<Rightarrow> string \<Rightarrow> 'b option \<Rightarrow> (string \<times> reader) list \<Rightarrow> (string \<times> string) list \<Rightarrow>
     (string \<Rightarrow> error + 'r) \<Rightarrow> error + 'r" where
  "Client_Put w c path body files headers result =
     (case request w c ''PUT'' path [] body files headers of
        Inl err \<Rightarrow> Inl err
      | Inr respBytes \<Rightarrow> handleContent respBytes result)"

definition Client_Delete ::
  "'b world \<Rightarrow> Client \<Rightarrow> string \<Rightarrow> 'b option \<Rightarrow> (string \<times> string) list \<Rightarrow>
     (string \<Rightarrow> error + 'r) \<Rightarrow> error + 'r" where
  "Client_Delete w c path body headers result =
     (case request w c ''DELETE'' path [] body [] headers of
        Inl err \<Rightarrow> Inl err
      | Inr respBytes \<Rightarrow> handleContent respBytes result)"

definition Client_GetRaw ::
  "'b world \<Rightarrow> Client \<Rightarrow> string \<Rightarrow> (string \<times> string) list \<Rightarrow> (string \<times> string) list \<Rightarrow> error + string" where
  "Client_GetRaw w c path params headers = request w c ''GET'' path params None [] headers"


section \<open>Properties of the wait loops\<close>

lemma fetched_append: "fetched (xs @ ys) = fetched xs @ fetched ys"
  by (induction xs rule: fetched.induct) auto

lemma callbacks_append: "callbacks (xs @ ys) = callbacks xs @ callbacks ys"
  by (induction xs rule: callbacks.induct) auto

lemma sleeps_append: "sleeps (xs @ ys) = sleeps xs @ sleeps ys"
  by (induction xs rule: sleeps.induct) auto

lemma paths_append: "paths (xs @ ys) = paths xs @ paths ys"
  by (induction xs rule: paths.induct) auto

lemmas trace_append = fetched_append callbacks_append sleeps_append paths_append

lemma clock_events_trace [simp]:
  "fetched (clock_events mw d) = []" "callbacks (clock_events mw d) = []"
  "sleeps (clock_events mw d) = []" "paths (clock_events mw d) = []"
  by (cases mw; simp)+

lemma callback_events_trace [simp]:
  "fetched (callback_events cb u) = []"
  "callbacks (callback_events cb u) = (case cb of None \<Rightarrow> [] | Some f \<Rightarrow> [u])"
  "sleeps (callback_events cb u) = []" "paths (callback_events cb u) = []"
  by (cases cb; simp)+

lemma after_Some: "after es r = Some (s, e, tr) \<longleftrightarrow> (\<exists>tr'. r = Some (s, e, tr') \<and> tr = es @ tr')"
  by (cases r) auto

lemma Memories_loop_cases:
  assumes run: "Memories_WaitForImport_loop cb mw cur (t # ts) = Some (s, e, tr)"
  obtains
    (complete) "\<not> Progress cur < 1" "s = cur" "e = None" "tr = []"
  | (timeout) "Progress cur < 1" "timed_out mw (since t)" "s = cur"
      "e = Some (Errorf ''timeout waiting for import to complete'')" "tr = clock_events mw (since t)"
  | (failed) err where "Progress cur < 1" "\<not> timed_out mw (since t)"
      "get t (Sprintf ''/memories/imports/%s'' [ID cur]) = Inl err" "s = cur"
      "e = Some (Wrapf ''failed to get import status: '' err)"
      "tr = clock_events mw (since t) @
            [Sleep (2 * Second), Get (Sprintf ''/memories/imports/%s'' [ID cur]) (Inl err)]"
  | (updated) u tr' where "Progress cur < 1" "\<not> timed_out mw (since t)"
      "get t (Sprintf ''/memories/imports/%s'' [ID cur]) = Inr u"
      "Memories_WaitForImport_loop cb mw (run_callback cb u) ts = Some (s, e, tr')"
      "tr = (clock_events mw (since t) @
             [Sleep (2 * Second), Get (Sprintf ''/memories/imports/%s'' [ID cur]) (Inr u)] @
             callback_events cb u) @ tr'"
proof (cases "Progress cur < 1")
  case False
  have "s = cur" "e = None" "tr = []"
    using run False by auto
  then show ?thesis
    by (rule complete[OF False])
next
  case incomplete: True
  show ?thesis
  proof (cases "timed_out mw (since t)")
    case True
    have "s = cur" "e = Some (Errorf ''timeout waiting for import to complete'')"
      "tr = clock_events mw (since t)"
      using run incomplete True by auto
    then show ?thesis
      by (rule timeout[OF incomplete True])
  next
    case False
    show ?thesis
    proof (cases "get t (Sprintf ''/memories/imports/%s'' [ID cur])")
      case (Inl err)
      have "s = cur" "e = Some (Wrapf ''failed to get import status: '' err)"
        "tr = clock_events mw (since t) @
              [Sleep (2 * Second), Get (Sprintf ''/memories/imports/%s'' [ID cur]) (Inl err)]"
        using run incomplete False Inl by (auto simp: Memories_GetImportStatus_def)
      then show ?thesis
        by (rule failed[OF incomplete False Inl])
    next
      case (Inr u)
      have "\<exists>tr'. Memories_WaitForImport_loop cb mw (run_callback cb u) ts = Some (s, e, tr') \<and>
              tr = (clock_events mw (since t) @
                    [Sleep (2 * Second), Get (Sprintf ''/memories/imports/%s'' [ID cur]) (Inr u)] @
                    callback_events cb u) @ tr'"
        using run incomplete False Inr
        by (auto simp: Memories_GetImportStatus_def after_Some)
      then show ?thesis
        using updated[OF incomplete False Inr] by blast
    qed
  qed
qed

lemma Memories_loop_snapshot:
  "Memories_WaitForImport_loop cb mw cur ticks = Some (s, e, tr) \<Longrightarrow>
   s = (case fetched tr of [] \<Rightarrow> cur | u # us \<Rightarrow> run_callback cb (last (u # us)))"
proof (induction ticks arbitrary: cur tr)
  case Nil
  then show ?case by (auto split: if_splits)
next
  case (Cons t ts)
  from Cons.prems show ?case
  proof (cases rule: Memories_loop_cases)
    case (updated u tr')
    from Cons.IH[OF updated(4)] show ?thesis
      by (auto simp: updated(5) trace_append split: list.splits)
  qed (simp_all add: trace_append)
qed

lemma Memories_loop_callbacks:
  "Memories_WaitForImport_loop cb mw cur ticks = Some (s, e, tr) \<Longrightarrow>
   callbacks tr = (case cb of None \<Rightarrow> [] | Some f \<Rightarrow> fetched tr)"
proof (induction ticks arbitrary: cur tr)
  case Nil
  then show ?case by (auto split: if_splits option.splits)
next
  case (Cons t ts)
  from Cons.prems show ?case
  proof (cases rule: Memories_loop_cases)
    case (updated u tr')
    from Cons.IH[OF updated(4)] show ?thesis
      by (auto simp: updated(5) trace_append split: option.splits)
  qed (simp_all add: trace_append split: option.splits)
qed


lemma Sprintf_one:
  "Sprintf ''/memories/imports/%s'' [x] = ''/memories/imports/'' @ x"
  "Sprintf ''/glossaries/imports/%s'' [x] = ''/glossaries/imports/'' @ x"
  "Sprintf ''/documents/%s'' [x] = ''/documents/'' @ x"
  "Sprintf ''/memories/%s'' [x] = ''/memories/'' @ x"
  "Sprintf ''/glossaries/%s'' [x] = ''/glossaries/'' @ x"
  by (simp_all add: Sprintf.simps)

lemma Glossaries_loop_cases:
  assumes run: "Glossaries_WaitForImport_loop g cb mw cur (t # ts) = Some (s, e, tr)"
  obtains
    (complete) "\<not> Progress cur < 1" "s = cur" "e = None" "tr = []"
  | (timeout) "Progress cur < 1" "timed_out mw (since t)" "s = cur"
      "e = Some (Errorf ''timeout waiting for glossary import to complete'')"
      "tr = clock_events mw (since t)"
  | (failed) err where "Progress cur < 1" "\<not> timed_out mw (since t)"
      "get t (Sprintf ''/glossaries/imports/%s'' [ID cur]) = Inl err" "s = cur"
      "e = Some (Wrapf ''failed to get import status: '' (Wrapf ''failed to get glossary import status: '' err))"
      "tr = clock_events mw (since t) @
            [Sleep (pollingInterval g), Get (Sprintf ''/glossaries/imports/%s'' [ID cur]) (Inl err)]"
  | (updated) u tr' where "Progress cur < 1" "\<not> timed_out mw (since t)"
      "get t (Sprintf ''/glossaries/imports/%s'' [ID cur]) = Inr u"
      "Glossaries_WaitForImport_loop g cb mw (run_callback cb u) ts = Some (s, e, tr')"
      "tr = (clock_events mw (since t) @
             [Sleep (pollingInterval g), Get (Sprintf ''/glossaries/imports/%s'' [ID cur]) (Inr u)] @
             callback_events cb u) @ tr'"
proof (cases "Progress cur < 1")
  case False
  have "s = cur" "e = None" "tr = []"
    using run False by auto
  then show ?thesis
    by (rule complete[OF False])
next
  case incomplete: True
  show ?thesis
  proof (cases "timed_out mw (since t)")
    case True
    have "s = cur" "e = Some (Errorf ''timeout waiting for glossary import to complete'')"
      "tr = clock_events mw (since t)"
      using run incomplete True by auto
    then show ?thesis
      by (rule timeout[OF incomplete True])
  next
    case False
    show ?thesis
    proof (cases "get t (Sprintf ''/glossaries/imports/%s'' [ID cur])")
      case (Inl err)
      have "s = cur"
        "e = Some (Wrapf ''failed to get import status: '' (Wrapf ''failed to get glossary import status: '' err))"
        "tr = clock_events mw (since t) @
              [Sleep (pollingInterval g), Get (Sprintf ''/glossaries/imports/%s'' [ID cur]) (Inl err)]"
        using run incomplete False Inl by (auto simp: Glossaries_GetImportStatus_def)
      then show ?thesis
        by (rule failed[OF incomplete False Inl])
    next
      case (Inr u)
      have "\<exists>tr'. Glossaries_WaitForImport_loop g cb mw (run_callback cb u) ts = Some (s, e, tr') \<and>
              tr = (clock_events mw (since t) @
                    [Sleep (pollingInterval g), Get (Sprintf ''/glossaries/imports/%s'' [ID cur]) (Inr u)] @
                    callback_events cb u) @ tr'"
        using run incomplete False Inr
        by (auto simp: Glossaries_GetImportStatus_def after_Some)
      then show ?thesis
        using updated[OF incomplete False Inr] by blast
    qed
  qed
qed

lemma Glossaries_loop_snapshot:
  "Glossaries_WaitForImport_loop g cb mw cur ticks = Some (s, e, tr) \<Longrightarrow>
   s = (case fetched tr of [] \<Rightarrow> cur | u # us \<Rightarrow> run_callback cb (last (u # us)))"
proof (induction ticks arbitrary: cur tr)
  case Nil
  then show ?case by (auto split: if_splits)
next
  case (Cons t ts)
  from Cons.prems show ?case
  proof (cases rule: Glossaries_loop_cases)
    case (updated u tr')
    from Cons.IH[OF updated(4)] show ?thesis
      by (auto simp: updated(5) trace_append split: list.splits)
  qed (simp_all add: trace_append)
qed

lemma Glossaries_loop_callbacks:
  "Glossaries_WaitForImport_loop g cb mw cur ticks = Some (s, e, tr) \<Longrightarrow>
   callbacks tr = (case cb of None \<Rightarrow> [] | Some f \<Rightarrow> fetched tr)"
proof (induction ticks arbitrary: cur tr)
  case Nil
  then show ?case by (auto split: if_splits option.splits)
next
  case (Cons t ts)
  from Cons.prems show ?case
  proof (cases rule: Glossaries_loop_cases)
    case (updated u tr')
    from Cons.IH[OF updated(4)] show ?thesis
      by (auto simp: updated(5) trace_append split: option.splits)
  qed (simp_all add: trace_append split: option.splits)
qed

lemma Memories_loop_sleeps:
  "Memories_WaitForImport_loop cb mw cur ticks = Some (s, e, tr) \<Longrightarrow>
   sleeps tr = map (\<lambda>p. 2 * Second) (paths tr)"
proof (induction ticks arbitrary: cur tr)
  case Nil
  then show ?case by (auto split: if_splits)
next
  case (Cons t ts)
  from Cons.prems show ?case
  proof (cases rule: Memories_loop_cases)
    case (updated u tr')
    from Cons.IH[OF updated(4)] show ?thesis
      by (simp add: updated(5) trace_append)
  qed (simp_all add: trace_append)
qed

lemma Glossaries_loop_sleeps:
  "Glossaries_WaitForImport_loop g cb mw cur ticks = Some (s, e, tr) \<Longrightarrow>
   sleeps tr = map (\<lambda>p. pollingInterval g) (paths tr)"
proof (induction ticks arbitrary: cur tr)
  case Nil
  then show ?case by (auto split: if_splits)
next
  case (Cons t ts)
  from Cons.prems show ?case
  proof (cases rule: Glossaries_loop_cases)
    case (updated u tr')
    from Cons.IH[OF updated(4)] show ?thesis
      by (simp add: updated(5) trace_append)
  qed (simp_all add: trace_append)
qed

lemma Memories_step:
  assumes "Progress cur < 1" "\<not> timed_out mw (since t)"
    and "get t (''/memories/imports/'' @ ID cur) = Inr u"
  shows "Memories_WaitForImport cur cb mw (t # ts) =
           after (clock_events mw (since t) @
                  [Sleep (2 * Second), Get (''/memories/imports/'' @ ID cur) (Inr u)] @
                  callback_events cb u)
             (Memories_WaitForImport (run_callback cb u) cb mw ts)"
  using assms by (simp add: Memories_WaitForImport_def Memories_GetImportStatus_def Sprintf_one)

lemma Glossaries_step:
  assumes "Progress cur < 1" "\<not> timed_out mw (since t)"
    and "get t (''/glossaries/imports/'' @ ID cur) = Inr u"
  shows "Glossaries_WaitForImport g cur cb mw (t # ts) =
           after (clock_events mw (since t) @
                  [Sleep (pollingInterval g), Get (''/glossaries/imports/'' @ ID cur) (Inr u)] @
                  callback_events cb u)
             (Glossaries_WaitForImport g (run_callback cb u) cb mw ts)"
  using assms by (simp add: Glossaries_WaitForImport_def Glossaries_GetImportStatus_def Sprintf_one)

lemma Memories_complete:
  "\<not> Progress imp < 1 \<Longrightarrow> Memories_WaitForImport imp cb mw ticks = Some (imp, None, [])"
  by (cases ticks) (simp_all add: Memories_WaitForImport_def)

lemma Glossaries_complete:
  "\<not> Progress imp < 1 \<Longrightarrow> Glossaries_WaitForImport g imp cb mw ticks = Some (imp, None, [])"
  by (cases ticks) (simp_all add: Glossaries_WaitForImport_def)

text \<open>
  Claim C5.  An initial snapshot that is already complete (progress at least 1) is returned at
  once: no clock reading, no sleep, no fetch, no callback, whatever the world would have answered.
  Otherwise an iteration that is not timed out sleeps for two seconds, fetches the status under the
  identifier of the current snapshot, goes on with the fetched snapshot and hands it to the
  callback if there is one.  In every run that returns, the snapshots handed to the callback are
  exactly the snapshots fetched, in order, so the callback runs once per successful fetch and never
  for the initial snapshot, and there is one sleep of the polling interval for each call to the
  server.  With fetches that answer progress 0.3, 0.7 and 1.0 the poller returns
  the third snapshot after exactly three callback invocations.  Both wait loops.
\<close>

theorem WaitForImport_iterations:
  "(Progress imp \<ge> 1 \<longrightarrow>
      Memories_WaitForImport imp cb mw ticks = Some (imp, None, []) \<and>
      Glossaries_WaitForImport g imp cb mw ticks = Some (imp, None, []))
   \<and> (Progress cur < 1 \<and> \<not> timed_out mw (since t) \<and>
        get t (''/memories/imports/'' @ ID cur) = Inr u \<longrightarrow>
      Memories_WaitForImport cur cb mw (t # ts) =
        after (clock_events mw (since t) @
               [Sleep (2 * Second), Get (''/memories/imports/'' @ ID cur) (Inr u)] @
               callback_events cb u)
          (Memories_WaitForImport (run_callback cb u) cb mw ts))
   \<and> (Progress cur < 1 \<and> \<not> timed_out mw (since t) \<and>
        get t (''/glossaries/imports/'' @ ID cur) = Inr v \<longrightarrow>
      Glossaries_WaitForImport newGlossariesService cur cb mw (t # ts) =
        after (clock_events mw (since t) @
               [Sleep (2 * Second), Get (''/glossaries/imports/'' @ ID cur) (Inr v)] @
               callback_events cb v)
          (Glossaries_WaitForImport newGlossariesService (run_callback cb v) cb mw ts))
   \<and> (Memories_WaitForImport imp cb mw ticks = Some (s, e, tr) \<longrightarrow>
        callbacks tr = (case cb of None \<Rightarrow> [] | Some f \<Rightarrow> fetched tr) \<and>
        sleeps tr = map (\<lambda>p. 2 * Second) (paths tr))
   \<and> (Glossaries_WaitForImport g imp cb mw ticks = Some (s', e', tr') \<longrightarrow>
        callbacks tr' = (case cb of None \<Rightarrow> [] | Some f \<Rightarrow> fetched tr') \<and>
        sleeps tr' = map (\<lambda>p. pollingInterval g) (paths tr'))
   \<and> (Progress start < 1 \<and>
        get ta (''/memories/imports/'' @ ID start) = Inr ua \<and> Progress ua = 3 / 10 \<and>
        get tb (''/memories/imports/'' @ ID ua) = Inr ub \<and> Progress ub = 7 / 10 \<and>
        get tc (''/memories/imports/'' @ ID ub) = Inr uc \<and> Progress uc = 1 \<longrightarrow>
        (\<exists>trc. Memories_WaitForImport start (Some (\<lambda>x. x)) None (ta # tb # tc # rest) = Some (uc, None, trc) \<and>
                callbacks trc = [ua, ub, uc] \<and> fetched trc = [ua, ub, uc]))"
proof (intro conjI impI)
  assume "1 \<le> Progress imp"
  then have c: "\<not> Progress imp < 1" by simp
  show "Memories_WaitForImport imp cb mw ticks = Some (imp, None, [])"
    by (rule Memories_complete[OF c])
  show "Glossaries_WaitForImport g imp cb mw ticks = Some (imp, None, [])"
    by (rule Glossaries_complete[OF c])
next
  assume "Progress cur < 1 \<and> \<not> timed_out mw (since t) \<and>
          get t (''/memories/imports/'' @ ID cur) = Inr u"
  then show "Memories_WaitForImport cur cb mw (t # ts) =
        after (clock_events mw (since t) @
               [Sleep (2 * Second), Get (''/memories/imports/'' @ ID cur) (Inr u)] @
               callback_events cb u)
          (Memories_WaitForImport (run_callback cb u) cb mw ts)"
    by (intro Memories_step) simp_all
next
  assume "Progress cur < 1 \<and> \<not> timed_out mw (since t) \<and>
          get t (''/glossaries/imports/'' @ ID cur) = Inr v"
  then have "Glossaries_WaitForImport newGlossariesService cur cb mw (t # ts) =
        after (clock_events mw (since t) @
               [Sleep (pollingInterval newGlossariesService), Get (''/glossaries/imports/'' @ ID cur) (Inr v)] @
               callback_events cb v)
          (Glossaries_WaitForImport newGlossariesService (run_callback cb v) cb mw ts)"
    by (intro Glossaries_step) simp_all
  then show "Glossaries_WaitForImport newGlossariesService cur cb mw (t # ts) =
        after (clock_events mw (since t) @
               [Sleep (2 * Second), Get (''/glossaries/imports/'' @ ID cur) (Inr v)] @
               callback_events cb v)
          (Glossaries_WaitForImport newGlossariesService (run_callback cb v) cb mw ts)"
    by (simp add: newGlossariesService_def)
next
  assume "Memories_WaitForImport imp cb mw ticks = Some (s, e, tr)"
  then have run: "Memories_WaitForImport_loop cb mw imp ticks = Some (s, e, tr)"
    by (simp add: Memories_WaitForImport_def)
  show "callbacks tr = (case cb of None \<Rightarrow> [] | Some f \<Rightarrow> fetched tr)"
    by (rule Memories_loop_callbacks[OF run])
  show "sleeps tr = map (\<lambda>p. 2 * Second) (paths tr)"
    by (rule Memories_loop_sleeps[OF run])
next
  assume "Glossaries_WaitForImport g imp cb mw ticks = Some (s', e', tr')"
  then have run: "Glossaries_WaitForImport_loop g cb mw imp ticks = Some (s', e', tr')"
    by (simp add: Glossaries_WaitForImport_def)
  show "callbacks tr' = (case cb of None \<Rightarrow> [] | Some f \<Rightarrow> fetched tr')"
    by (rule Glossaries_loop_callbacks[OF run])
  show "sleeps tr' = map (\<lambda>p. pollingInterval g) (paths tr')"
    by (rule Glossaries_loop_sleeps[OF run])
next
  assume a: "Progress start < 1 \<and>
        get ta (''/memories/imports/'' @ ID start) = Inr ua \<and> Progress ua = 3 / 10 \<and>
        get tb (''/memories/imports/'' @ ID ua) = Inr ub \<and> Progress ub = 7 / 10 \<and>
        get tc (''/memories/imports/'' @ ID ub) = Inr uc \<and> Progress uc = 1"
  have s1: "Memories_WaitForImport start (Some (\<lambda>x. x)) None (ta # tb # tc # rest) =
        after ([Sleep (2 * Second), Get (''/memories/imports/'' @ ID start) (Inr ua), Callback ua])
          (Memories_WaitForImport ua (Some (\<lambda>x. x)) None (tb # tc # rest))"
    using a Memories_step[of start None ta ua "Some (\<lambda>x. x)" "tb # tc # rest"] by simp
  have s2: "Memories_WaitForImport ua (Some (\<lambda>x. x)) None (tb # tc # rest) =
        after ([Sleep (2 * Second), Get (''/memories/imports/'' @ ID ua) (Inr ub), Callback ub])
          (Memories_WaitForImport ub (Some (\<lambda>x. x)) None (tc # rest))"
    using a Memories_step[of ua None tb ub "Some (\<lambda>x. x)" "tc # rest"] by simp
  have s3: "Memories_WaitForImport ub (Some (\<lambda>x. x)) None (tc # rest) =
        after ([Sleep (2 * Second), Get (''/memories/imports/'' @ ID ub) (Inr uc), Callback uc])
          (Memories_WaitForImport uc (Some (\<lambda>x. x)) None rest)"
    using a Memories_step[of ub None tc uc "Some (\<lambda>x. x)" rest] by simp
  have s4: "Memories_WaitForImport uc (Some (\<lambda>x. x)) None rest = Some (uc, None, [])"
    using a by (intro Memories_complete) simp
  show "\<exists>trc. Memories_WaitForImport start (Some (\<lambda>x. x)) None (ta # tb # tc # rest) = Some (uc, None, trc) \<and>
                callbacks trc = [ua, ub, uc] \<and> fetched trc = [ua, ub, uc]"
    by (simp add: s1 s2 s3 s4)
qed


theorem WaitForImport_iterations_witness:
  "Progress (import_at ''a'' 1) \<ge> 1 \<and>
   Memories_WaitForImport (import_at ''a'' 1) None None [] = Some (import_at ''a'' 1, None, []) \<and>
   Glossaries_WaitForImport newGlossariesService (import_at ''a'' 1) None None [] = Some (import_at ''a'' 1, None, []) \<and>
   Progress (import_at ''a'' 0) < 1 \<and> \<not> timed_out None (since (answering 0 (Inr (import_at ''a'' 1)))) \<and>
   get (answering 0 (Inr (import_at ''a'' 1))) (''/memories/imports/'' @ ID (import_at ''a'' 0)) = Inr (import_at ''a'' 1) \<and>
   get (answering 0 (Inr (import_at ''a'' 1))) (''/glossaries/imports/'' @ ID (import_at ''a'' 0)) = Inr (import_at ''a'' 1) \<and>
   Memories_WaitForImport (import_at ''a'' 0) None None [answering 0 (Inr (import_at ''a'' 1))] =
     Some (import_at ''a'' 1, None, [Sleep (2 * Second), Get ''/memories/imports/a'' (Inr (import_at ''a'' 1))]) \<and>
   Glossaries_WaitForImport newGlossariesService (import_at ''a'' 0) None None [answering 0 (Inr (import_at ''a'' 1))] =
     Some (import_at ''a'' 1, None, [Sleep (2 * Second), Get ''/glossaries/imports/a'' (Inr (import_at ''a'' 1))]) \<and>
   callbacks ([] :: Import event list) = [] \<and>
   Progress (import_at ''a'' (3 / 10)) = 3 / 10 \<and> Progress (import_at ''a'' (7 / 10)) = 7 / 10 \<and>
   (\<exists>trc. Memories_WaitForImport (import_at ''a'' 0) (Some observe) None
             [answering 0 (Inr (import_at ''a'' (3 / 10))), answering 0 (Inr (import_at ''a'' (7 / 10))),
              answering 0 (Inr (import_at ''a'' 1))] = Some (import_at ''a'' 1, None, trc) \<and>
           callbacks trc = [import_at ''a'' (3 / 10), import_at ''a'' (7 / 10), import_at ''a'' 1])"
proof -
  let ?done = "import_at ''a'' 1" and ?new = "import_at ''a'' 0"
  let ?t = "answering 0 (Inr ?done) :: Import tick"
  let ?u1 = "import_at ''a'' (3 / 10)" and ?u2 = "import_at ''a'' (7 / 10)"
  have obs: "observe = (\<lambda>x::Import. x)"
    by (simp add: observe_def fun_eq_iff)
  note th = WaitForImport_iterations[where imp = ?done and cb = None and mw = None and ticks = "[]"
      and g = newGlossariesService and cur = ?new and t = ?t and u = ?done and v = ?done and ts = "[]"
      and s = ?done and e = None and tr = "[]" and s' = ?done and e' = None and tr' = "[]"
      and start = ?new and ta = "answering 0 (Inr ?u1)" and ua = ?u1
      and tb = "answering 0 (Inr ?u2)" and ub = ?u2 and tc = ?t and uc = ?done and rest = "[]"]
  have h1: "Progress ?done \<ge> 1"
    by (simp add: import_at_def)
  have h2: "Progress ?new < 1 \<and> \<not> timed_out None (since ?t) \<and>
            get ?t (''/memories/imports/'' @ ID ?new) = Inr ?done"
    by (simp add: import_at_def answering_def)
  have h3: "Progress ?new < 1 \<and> \<not> timed_out None (since ?t) \<and>
            get ?t (''/glossaries/imports/'' @ ID ?new) = Inr ?done"
    by (simp add: import_at_def answering_def)
  have h6: "Progress ?new < 1 \<and>
        get (answering 0 (Inr ?u1)) (''/memories/imports/'' @ ID ?new) = Inr ?u1 \<and> Progress ?u1 = 3 / 10 \<and>
        get (answering 0 (Inr ?u2)) (''/memories/imports/'' @ ID ?u1) = Inr ?u2 \<and> Progress ?u2 = 7 / 10 \<and>
        get ?t (''/memories/imports/'' @ ID ?u2) = Inr ?done \<and> Progress ?done = 1"
    by (simp add: import_at_def answering_def)
  from th h1 have c1: "Memories_WaitForImport ?done None None [] = Some (?done, None, [])"
    "Glossaries_WaitForImport newGlossariesService ?done None None [] = Some (?done, None, [])"
    by blast+
  from th h2 have "Memories_WaitForImport ?new None None [?t] =
      after (clock_events None (since ?t) @
               [Sleep (2 * Second), Get (''/memories/imports/'' @ ID ?new) (Inr ?done)] @
               callback_events None ?done)
          (Memories_WaitForImport (run_callback None ?done) None None [])"
    by blast
  with c1 have c2: "Memories_WaitForImport ?new None None [?t] =
     Some (?done, None, [Sleep (2 * Second), Get ''/memories/imports/a'' (Inr ?done)])"
    by (simp add: import_at_def)
  from th h3 have "Glossaries_WaitForImport newGlossariesService ?new None None [?t] =
      after (clock_events None (since ?t) @
               [Sleep (2 * Second), Get (''/glossaries/imports/'' @ ID ?new) (Inr ?done)] @
               callback_events None ?done)
          (Glossaries_WaitForImport newGlossariesService (run_callback None ?done) None None [])"
    by blast
  with c1 have c3: "Glossaries_WaitForImport newGlossariesService ?new None None [?t] =
     Some (?done, None, [Sleep (2 * Second), Get ''/glossaries/imports/a'' (Inr ?done)])"
    by (simp add: import_at_def)
  from th c1 have c4: "callbacks ([] :: Import event list) = []"
    by simp
  from th h6 have c6: "\<exists>trc. Memories_WaitForImport ?new (Some (\<lambda>x. x)) None
             [answering 0 (Inr ?u1), answering 0 (Inr ?u2), ?t] = Some (?done, None, trc) \<and>
           callbacks trc = [?u1, ?u2, ?done] \<and> fetched trc = [?u1, ?u2, ?done]"
    by blast
  show ?thesis
    using h1 h2 h3 h6 c1 c2 c3 c4 c6 unfolding obs by blast
qed


lemma sleeps_checked_callback:
  "sleeps_checked m (callback_events cb u @ tr) = sleeps_checked m tr"
  by (cases cb) simp_all

lemma Memories_loop_checked:
  "Memories_WaitForImport_loop cb (Some m) cur ticks = Some (s, e, tr) \<Longrightarrow> sleeps_checked m tr"
proof (induction ticks arbitrary: cur tr)
  case Nil
  then show ?case by (auto split: if_splits)
next
  case (Cons t ts)
  from Cons.prems show ?case
  proof (cases rule: Memories_loop_cases)
    case (updated u tr')
    from Cons.IH[OF updated(4)] updated(2) show ?thesis
      by (simp add: updated(5) sleeps_checked_callback)
  qed simp_all
qed

lemma Glossaries_loop_checked:
  "Glossaries_WaitForImport_loop g cb (Some m) cur ticks = Some (s, e, tr) \<Longrightarrow> sleeps_checked m tr"
proof (induction ticks arbitrary: cur tr)
  case Nil
  then show ?case by (auto split: if_splits)
next
  case (Cons t ts)
  from Cons.prems show ?case
  proof (cases rule: Glossaries_loop_cases)
    case (updated u tr')
    from Cons.IH[OF updated(4)] updated(2) show ?thesis
      by (simp add: updated(5) sleeps_checked_callback)
  qed simp_all
qed

lemma Memories_loop_failed_incomplete:
  "Memories_WaitForImport_loop cb mw cur ticks = Some (s, Some err, tr) \<Longrightarrow> Progress s < 1"
proof (induction ticks arbitrary: cur tr)
  case Nil
  then show ?case by (auto split: if_splits)
next
  case (Cons t ts)
  from Cons.prems show ?case
  proof (cases rule: Memories_loop_cases)
    case (updated u tr')
    from Cons.IH[OF updated(4)] show ?thesis .
  qed simp_all
qed

lemma Glossaries_loop_failed_incomplete:
  "Glossaries_WaitForImport_loop g cb mw cur ticks = Some (s, Some err, tr) \<Longrightarrow> Progress s < 1"
proof (induction ticks arbitrary: cur tr)
  case Nil
  then show ?case by (auto split: if_splits)
next
  case (Cons t ts)
  from Cons.prems show ?case
  proof (cases rule: Glossaries_loop_cases)
    case (updated u tr')
    from Cons.IH[OF updated(4)] show ?thesis .
  qed simp_all
qed

text \<open>
  Claim C3, as amended.  With a maximum \<open>m\<close>, an iteration that finds the snapshot incomplete
  and the elapsed time above \<open>m\<close> returns at once, before any sleep or fetch, with the current
  snapshot and the error \<open>timeout waiting for import to complete\<close> (\<open>timeout waiting for glossary
  import to complete\<close> for glossaries).  In every run that returns an error, each sleep of the
  trace comes directly after a clock reading that did not exceed \<open>m\<close>, the snapshot returned is
  incomplete, and it is the initial snapshot when nothing was fetched and otherwise the last
  snapshot fetched, as the callback left it.  The error is made by \<open>fmt.Errorf\<close>: it is not a
  \<open>LaraTimeoutError\<close>, so it can be told from other failures by its message only.
\<close>

theorem WaitForImport_timeout:
  "(Progress cur < 1 \<and> since t > m \<longrightarrow>
      Memories_WaitForImport cur cb (Some m) (t # ts) =
        Some (cur, Some (Errorf ''timeout waiting for import to complete''), [Since (since t)]) \<and>
      Glossaries_WaitForImport g cur cb (Some m) (t # ts) =
        Some (cur, Some (Errorf ''timeout waiting for glossary import to complete''), [Since (since t)]))
   \<and> (Memories_WaitForImport imp cb (Some m) ticks = Some (s, Some err, tr) \<longrightarrow>
        sleeps_checked m tr \<and> Progress s < 1 \<and>
        s = (case fetched tr of [] \<Rightarrow> imp | u # us \<Rightarrow> run_callback cb (last (u # us))))
   \<and> (Glossaries_WaitForImport g imp cb (Some m) ticks = Some (s', Some err', tr') \<longrightarrow>
        sleeps_checked m tr' \<and> Progress s' < 1 \<and>
        s' = (case fetched tr' of [] \<Rightarrow> imp | u # us \<Rightarrow> run_callback cb (last (u # us))))
   \<and> as_LaraTimeoutError (Errorf ''timeout waiting for import to complete'') = None
   \<and> as_LaraTimeoutError (Errorf ''timeout waiting for glossary import to complete'') = None"
proof (intro conjI impI)
  assume a: "Progress cur < 1 \<and> since t > m"
  then show "Memories_WaitForImport cur cb (Some m) (t # ts) =
        Some (cur, Some (Errorf ''timeout waiting for import to complete''), [Since (since t)])"
    by (simp add: Memories_WaitForImport_def)
  from a show "Glossaries_WaitForImport g cur cb (Some m) (t # ts) =
        Some (cur, Some (Errorf ''timeout waiting for glossary import to complete''), [Since (since t)])"
    by (simp add: Glossaries_WaitForImport_def)
next
  assume "Memories_WaitForImport imp cb (Some m) ticks = Some (s, Some err, tr)"
  then have run: "Memories_WaitForImport_loop cb (Some m) imp ticks = Some (s, Some err, tr)"
    by (simp add: Memories_WaitForImport_def)
  show "sleeps_checked m tr" by (rule Memories_loop_checked[OF run])
  show "Progress s < 1" by (rule Memories_loop_failed_incomplete[OF run])
  show "s = (case fetched tr of [] \<Rightarrow> imp | u # us \<Rightarrow> run_callback cb (last (u # us)))"
    by (rule Memories_loop_snapshot[OF run])
next
  assume "Glossaries_WaitForImport g imp cb (Some m) ticks = Some (s', Some err', tr')"
  then have run: "Glossaries_WaitForImport_loop g cb (Some m) imp ticks = Some (s', Some err', tr')"
    by (simp add: Glossaries_WaitForImport_def)
  show "sleeps_checked m tr'" by (rule Glossaries_loop_checked[OF run])
  show "Progress s' < 1" by (rule Glossaries_loop_failed_incomplete[OF run])
  show "s' = (case fetched tr' of [] \<Rightarrow> imp | u # us \<Rightarrow> run_callback cb (last (u # us)))"
    by (rule Glossaries_loop_snapshot[OF run])
qed simp_all

text \<open>
  Claim C3 as stated fails: after one fetch (progress 0.5) and an elapsed time of 5 against a
  maximum of 3, the memory poller returns the fetched snapshot with an error that the type
  assertion \<open>err.(*LaraTimeoutError)\<close> rejects.
\<close>

theorem WaitForImport_timeout_counterexample:
  "Memories_WaitForImport (import_at ''a'' 0) None (Some 3)
     [answering 0 (Inr (import_at ''a'' (1 / 2))), answering 5 (Inr (import_at ''a'' 1))] =
     Some (import_at ''a'' (1 / 2), Some (Errorf ''timeout waiting for import to complete''),
           [Since 0, Sleep (2 * Second), Get ''/memories/imports/a'' (Inr (import_at ''a'' (1 / 2))), Since 5]) \<and>
   as_LaraTimeoutError (Errorf ''timeout waiting for import to complete'') = None"
  by (simp add: Memories_WaitForImport_def Memories_GetImportStatus_def import_at_def answering_def
        Sprintf.simps)


theorem WaitForImport_timeout_witness:
  "Progress (import_at ''a'' 0) < 1 \<and> since (answering 5 (Inr (import_at ''a'' 1))) > 3 \<and>
   Memories_WaitForImport (import_at ''a'' 0) None (Some 3) [answering 5 (Inr (import_at ''a'' 1))] =
     Some (import_at ''a'' 0, Some (Errorf ''timeout waiting for import to complete''), [Since 5]) \<and>
   Glossaries_WaitForImport newGlossariesService (import_at ''a'' 0) None (Some 3) [answering 5 (Inr (import_at ''a'' 1))] =
     Some (import_at ''a'' 0, Some (Errorf ''timeout waiting for glossary import to complete''), [Since 5]) \<and>
   Memories_WaitForImport (import_at ''a'' 0) None (Some 3)
     [answering 0 (Inr (import_at ''a'' (1 / 2))), answering 5 (Inr (import_at ''a'' 1))] =
     Some (import_at ''a'' (1 / 2), Some (Errorf ''timeout waiting for import to complete''),
           [Since 0, Sleep (2 * Second), Get ''/memories/imports/a'' (Inr (import_at ''a'' (1 / 2))), Since 5]) \<and>
   sleeps_checked 3 [Since 0, Sleep (2 * Second), Get ''/memories/imports/a'' (Inr (import_at ''a'' (1 / 2))), Since 5] \<and>
   Progress (import_at ''a'' (1 / 2)) < 1 \<and>
   Glossaries_WaitForImport newGlossariesService (import_at ''a'' 0) None (Some 3)
     [answering 0 (Inr (import_at ''a'' (1 / 2))), answering 5 (Inr (import_at ''a'' 1))] =
     Some (import_at ''a'' (1 / 2), Some (Errorf ''timeout waiting for glossary import to complete''),
           [Since 0, Sleep (2 * Second), Get ''/glossaries/imports/a'' (Inr (import_at ''a'' (1 / 2))), Since 5]) \<and>
   sleeps_checked 3 [Since 0, Sleep (2 * Second), Get ''/glossaries/imports/a'' (Inr (import_at ''a'' (1 / 2))), Since 5]"
proof -
  let ?new = "import_at ''a'' 0" and ?half = "import_at ''a'' (1 / 2)"
  let ?late = "answering 5 (Inr (import_at ''a'' 1)) :: Import tick"
  let ?early = "answering 0 (Inr ?half) :: Import tick"
  let ?mtr = "[Since 0, Sleep (2 * Second), Get ''/memories/imports/a'' (Inr ?half), Since 5]"
  let ?gtr = "[Since 0, Sleep (2 * Second), Get ''/glossaries/imports/a'' (Inr ?half), Since 5]"
  note th = WaitForImport_timeout[where cur = ?new and t = ?late and m = 3 and ts = "[]" and cb = None
      and g = newGlossariesService and imp = ?new and ticks = "[?early, ?late]"
      and s = ?half and err = "Errorf ''timeout waiting for import to complete''" and tr = ?mtr
      and s' = ?half and err' = "Errorf ''timeout waiting for glossary import to complete''" and tr' = ?gtr]
  have h1: "Progress ?new < 1 \<and> since ?late > 3"
    by (simp add: import_at_def answering_def)
  have h2: "Memories_WaitForImport ?new None (Some 3) [?early, ?late] =
      Some (?half, Some (Errorf ''timeout waiting for import to complete''), ?mtr)"
    by (simp add: Memories_WaitForImport_def Memories_GetImportStatus_def import_at_def answering_def
          Sprintf.simps)
  have h3: "Glossaries_WaitForImport newGlossariesService ?new None (Some 3) [?early, ?late] =
      Some (?half, Some (Errorf ''timeout waiting for glossary import to complete''), ?gtr)"
    by (simp add: Glossaries_WaitForImport_def Glossaries_GetImportStatus_def import_at_def
          answering_def newGlossariesService_def Sprintf.simps)
  from th h1 have c1:
    "Memories_WaitForImport ?new None (Some 3) [?late] =
       Some (?new, Some (Errorf ''timeout waiting for import to complete''), [Since (since ?late)])"
    "Glossaries_WaitForImport newGlossariesService ?new None (Some 3) [?late] =
       Some (?new, Some (Errorf ''timeout waiting for glossary import to complete''), [Since (since ?late)])"
    by blast+
  have d: "since ?late = 5"
    by (simp add: answering_def)
  from th h2 have c2: "sleeps_checked 3 ?mtr" "Progress ?half < 1"
    by blast+
  from th h3 have c3: "sleeps_checked 3 ?gtr"
    by blast
  show ?thesis
    using h1 h2 h3 c1[unfolded d] c2 c3 by blast
qed

lemma Memories_fetch_failure:
  assumes "Progress cur < 1" "\<not> timed_out mw (since t)"
    and "fst (Memories_GetImportStatus (get t) (ID cur)) = Inl err"
  shows "Memories_WaitForImport cur cb mw (t # ts) =
           Some (cur, Some err, clock_events mw (since t) @
                  [Sleep (2 * Second),
                   Get (''/memories/imports/'' @ ID cur) (get t (''/memories/imports/'' @ ID cur))])"
  using assms
  by (auto simp: Memories_WaitForImport_def Memories_GetImportStatus_def Sprintf_one Let_def
           split: sum.splits)

lemma Glossaries_fetch_failure:
  assumes "Progress cur < 1" "\<not> timed_out mw (since t)"
    and "fst (Glossaries_GetImportStatus (get t) (ID cur)) = Inl err"
  shows "Glossaries_WaitForImport g cur cb mw (t # ts) =
           Some (cur, Some (Wrapf ''failed to get import status: '' err), clock_events mw (since t) @
                  [Sleep (pollingInterval g),
                   Get (''/glossaries/imports/'' @ ID cur) (get t (''/glossaries/imports/'' @ ID cur))])"
  using assms
  by (auto simp: Glossaries_WaitForImport_def Glossaries_GetImportStatus_def Sprintf_one Let_def
           split: sum.splits)

text \<open>
  When the status fetch of an iteration fails, the loop returns at once with the current snapshot,
  having slept once and called the server once (no retry), whatever ticks remain.  The memory loop
  returns the failure of \<open>GetImportStatus\<close> as it is; the glossary loop returns it wrapped once
  more, under \<open>failed to get import status: \<close>, with the failure of \<open>GetImportStatus\<close> kept inside
  as the cause.  In every run that returns an error the snapshot returned is incomplete and is the
  last one fetched (as the callback left it), or the initial one when nothing was fetched.
\<close>

lemma WaitForImport_stops_on_fetch_failure:
  "(Progress cur < 1 \<and> \<not> timed_out mw (since t) \<and>
    fst (Memories_GetImportStatus (get t) (ID cur)) = Inl err \<longrightarrow>
      Memories_WaitForImport cur cb mw (t # ts) =
        Some (cur, Some err, clock_events mw (since t) @
               [Sleep (2 * Second),
                Get (''/memories/imports/'' @ ID cur) (get t (''/memories/imports/'' @ ID cur))]))
   \<and> (Progress cur < 1 \<and> \<not> timed_out mw (since t) \<and>
      fst (Glossaries_GetImportStatus (get t) (ID cur)) = Inl err' \<longrightarrow>
      Glossaries_WaitForImport g cur cb mw (t # ts) =
        Some (cur, Some (Wrapf ''failed to get import status: '' err'), clock_events mw (since t) @
               [Sleep (pollingInterval g),
                Get (''/glossaries/imports/'' @ ID cur) (get t (''/glossaries/imports/'' @ ID cur))]))
   \<and> (Memories_WaitForImport imp cb mw ticks = Some (s, Some e, tr) \<longrightarrow>
        Progress s < 1 \<and>
        s = (case fetched tr of [] \<Rightarrow> imp | u # us \<Rightarrow> run_callback cb (last (u # us))))
   \<and> (Glossaries_WaitForImport g imp cb mw ticks = Some (s', Some e', tr') \<longrightarrow>
        Progress s' < 1 \<and>
        s' = (case fetched tr' of [] \<Rightarrow> imp | u # us \<Rightarrow> run_callback cb (last (u # us))))"
proof (intro conjI impI)
  assume "Progress cur < 1 \<and> \<not> timed_out mw (since t) \<and>
    fst (Memories_GetImportStatus (get t) (ID cur)) = Inl err"
  then show "Memories_WaitForImport cur cb mw (t # ts) =
        Some (cur, Some err, clock_events mw (since t) @
               [Sleep (2 * Second),
                Get (''/memories/imports/'' @ ID cur) (get t (''/memories/imports/'' @ ID cur))])"
    by (intro Memories_fetch_failure) simp_all
next
  assume "Progress cur < 1 \<and> \<not> timed_out mw (since t) \<and>
      fst (Glossaries_GetImportStatus (get t) (ID cur)) = Inl err'"
  then show "Glossaries_WaitForImport g cur cb mw (t # ts) =
        Some (cur, Some (Wrapf ''failed to get import status: '' err'), clock_events mw (since t) @
               [Sleep (pollingInterval g),
                Get (''/glossaries/imports/'' @ ID cur) (get t (''/glossaries/imports/'' @ ID cur))])"
    by (intro Glossaries_fetch_failure) simp_all
next
  assume "Memories_WaitForImport imp cb mw ticks = Some (s, Some e, tr)"
  then have run: "Memories_WaitForImport_loop cb mw imp ticks = Some (s, Some e, tr)"
    by (simp add: Memories_WaitForImport_def)
  show "Progress s < 1" by (rule Memories_loop_failed_incomplete[OF run])
  show "s = (case fetched tr of [] \<Rightarrow> imp | u # us \<Rightarrow> run_callback cb (last (u # us)))"
    by (rule Memories_loop_snapshot[OF run])
next
  assume "Glossaries_WaitForImport g imp cb mw ticks = Some (s', Some e', tr')"
  then have run: "Glossaries_WaitForImport_loop g cb mw imp ticks = Some (s', Some e', tr')"
    by (simp add: Glossaries_WaitForImport_def)
  show "Progress s' < 1" by (rule Glossaries_loop_failed_incomplete[OF run])
  show "s' = (case fetched tr' of [] \<Rightarrow> imp | u # us \<Rightarrow> run_callback cb (last (u # us)))"
    by (rule Glossaries_loop_snapshot[OF run])
qed

text \<open>
  Claim C4.  A failed status fetch stops both loops at once, with no retry, and the snapshot held
  is returned with the failure.  The memory loop reports the failure of its status fetch
  unchanged, as the claim says.  The glossary loop does not: on an incomplete import whose first
  status fetch fails with a connection failure, the error it returns is that failure wrapped once
  more under \<open>failed to get import status: \<close>, which is another error than the one the fetch
  reported.
\<close>

theorem Glossaries_WaitForImport_rewraps_fetch_failure:
  "fst (Memories_GetImportStatus (get (answering 0 (Inl (LaraConnectionError ''reset'')))) ''a'') =
     Inl (Wrapf ''failed to get import status: '' (LaraConnectionError ''reset'')) \<and>
   Memories_WaitForImport (import_at ''a'' 0) None None [answering 0 (Inl (LaraConnectionError ''reset''))] =
     Some (import_at ''a'' 0, Some (Wrapf ''failed to get import status: '' (LaraConnectionError ''reset'')),
           [Sleep (2 * Second), Get ''/memories/imports/a'' (Inl (LaraConnectionError ''reset''))]) \<and>
   fst (Glossaries_GetImportStatus (get (answering 0 (Inl (LaraConnectionError ''reset'')))) ''a'') =
     Inl (Wrapf ''failed to get glossary import status: '' (LaraConnectionError ''reset'')) \<and>
   Glossaries_WaitForImport newGlossariesService (import_at ''a'' 0) None None
     [answering 0 (Inl (LaraConnectionError ''reset''))] =
     Some (import_at ''a'' 0,
           Some (Wrapf ''failed to get import status: ''
                  (Wrapf ''failed to get glossary import status: '' (LaraConnectionError ''reset''))),
           [Sleep (2 * Second), Get ''/glossaries/imports/a'' (Inl (LaraConnectionError ''reset''))]) \<and>
   Wrapf ''failed to get import status: ''
     (Wrapf ''failed to get glossary import status: '' (LaraConnectionError ''reset'')) \<noteq>
   Wrapf ''failed to get glossary import status: '' (LaraConnectionError ''reset'')"
  by (simp add: Memories_WaitForImport_def Memories_GetImportStatus_def
        Glossaries_WaitForImport_def Glossaries_GetImportStatus_def import_at_def
        answering_def newGlossariesService_def Sprintf.simps)


section \<open>Properties of document translation\<close>

lemma waitForTranslation_terminal:
  "doc_Status d = DocumentStatusTranslated \<or> doc_Status d = DocumentStatusError \<Longrightarrow>
   waitForTranslation d ticks = Some (d, None, [])"
  by (cases ticks) (auto simp: waitForTranslation_def)

lemma waitForTranslation_step:
  assumes "doc_Status cur \<noteq> DocumentStatusTranslated" "doc_Status cur \<noteq> DocumentStatusError"
    and "get t (''/documents/'' @ doc_ID cur) = Inr u"
  shows "waitForTranslation cur (t # ts) =
           after [Sleep (2 * Second), Get (''/documents/'' @ doc_ID cur) (Inr u)] (waitForTranslation u ts)"
  using assms
  by (simp add: waitForTranslation_def Documents_Status_def Sprintf_one waitForTranslation_maxWaitTime_def)

lemma waitForTranslation_failed:
  assumes "doc_Status cur \<noteq> DocumentStatusTranslated" "doc_Status cur \<noteq> DocumentStatusError"
    and "get t (''/documents/'' @ doc_ID cur) = Inl err"
  shows "waitForTranslation cur (t # ts) =
           Some (cur, Some (Wrapf ''failed to get document status: '' err),
                 [Sleep (2 * Second), Get (''/documents/'' @ doc_ID cur) (Inl err)])"
  using assms
  by (simp add: waitForTranslation_def Documents_Status_def Sprintf_one waitForTranslation_maxWaitTime_def)

lemma waitForTranslation_loop_result:
  "waitForTranslation_loop d ticks = Some (s, e, tr) \<Longrightarrow>
   (case e of
      None \<Rightarrow> doc_Status s = DocumentStatusTranslated \<or> doc_Status s = DocumentStatusError
    | Some err \<Rightarrow> doc_Status s \<noteq> DocumentStatusTranslated \<and> doc_Status s \<noteq> DocumentStatusError \<and>
        (\<exists>cause. err = Wrapf ''failed to get document status: '' cause))"
proof (induction ticks arbitrary: d tr)
  case Nil
  then show ?case by (auto split: if_splits)
next
  case (Cons t ts)
  show ?case
  proof (cases "doc_Status d \<noteq> DocumentStatusTranslated \<and> doc_Status d \<noteq> DocumentStatusError")
    case False
    with Cons.prems show ?thesis by auto
  next
    case True
    show ?thesis
    proof (cases "get t (''/documents/'' @ doc_ID d)")
      case (Inl err)
      have "waitForTranslation d (t # ts) =
              Some (d, Some (Wrapf ''failed to get document status: '' err),
                    [Sleep (2 * Second), Get (''/documents/'' @ doc_ID d) (Inl err)])"
        using True Inl by (intro waitForTranslation_failed) simp_all
      with Cons.prems have "s = d" "e = Some (Wrapf ''failed to get document status: '' err)"
        by (simp_all add: waitForTranslation_def)
      with True show ?thesis by simp
    next
      case (Inr u)
      have "waitForTranslation d (t # ts) =
              after [Sleep (2 * Second), Get (''/documents/'' @ doc_ID d) (Inr u)] (waitForTranslation u ts)"
        using True Inr by (intro waitForTranslation_step) simp_all
      with Cons.prems have
        "after [Sleep (2 * Second), Get (''/documents/'' @ doc_ID d) (Inr u)] (waitForTranslation_loop u ts) =
           Some (s, e, tr)"
        by (simp add: waitForTranslation_def)
      then obtain tr' where "waitForTranslation_loop u ts = Some (s, e, tr')"
        by (auto simp: after_Some)
      from Cons.IH[OF this] show ?thesis .
    qed
  qed
qed

text \<open>
  Claim C9.  The document wait loop returns at once, without sleeping or fetching, when the status
  is \<open>translated\<close> or \<open>error\<close>; while the status is anything else and the fetch succeeds, it
  sleeps two seconds, fetches \<open>/documents/<id>\<close> for the identifier of the current snapshot and
  goes on with what it fetched.  It returns without an error exactly with a terminal status; the
  only error it ever returns is the failure of a status fetch, with a snapshot that is not
  terminal (its timeout is switched off).  When the wait ends with status \<open>error\<close>, \<open>Translate\<close>
  and \<open>TranslateWithOptions\<close> return the failure \<open>document translation failed: \<close> followed by the
  recorded error reason, or by \<open>translation failed\<close> when none is recorded, and download nothing;
  with status \<open>translated\<close> they return what the download returns.
\<close>

theorem waitForTranslation_completion:
  "(doc_Status d0 = DocumentStatusTranslated \<or> doc_Status d0 = DocumentStatusError \<longrightarrow>
      waitForTranslation d0 ticks0 = Some (d0, None, []))
   \<and> (doc_Status cur \<noteq> DocumentStatusTranslated \<and> doc_Status cur \<noteq> DocumentStatusError \<and>
      get t (''/documents/'' @ doc_ID cur) = Inr u \<longrightarrow>
      waitForTranslation cur (t # ts) =
        after [Sleep (2 * Second), Get (''/documents/'' @ doc_ID cur) (Inr u)] (waitForTranslation u ts))
   \<and> (waitForTranslation d ticks = Some (s, None, tr) \<longrightarrow>
      (doc_Status s = DocumentStatusTranslated \<or> doc_Status s = DocumentStatusError) \<and>
      Documents_TranslateWithOptions (Inr d) ticks download options =
        (if doc_Status s = DocumentStatusError then
           Some (Inl (Errorf (''document translation failed: '' @
                   (case doc_ErrorReason s of None \<Rightarrow> ''translation failed'' | Some reason \<Rightarrow> reason))))
         else Some (download (doc_ID s) (case options of None \<Rightarrow> [] | Some opts \<Rightarrow> OutputFormat opts))) \<and>
      Documents_Translate (Inr d) ticks download =
        (if doc_Status s = DocumentStatusError then
           Some (Inl (Errorf (''document translation failed: '' @
                   (case doc_ErrorReason s of None \<Rightarrow> ''translation failed'' | Some reason \<Rightarrow> reason))))
         else Some (download (doc_ID s) [])))
   \<and> (waitForTranslation d' ticks' = Some (s', Some err, tr') \<longrightarrow>
      doc_Status s' \<noteq> DocumentStatusTranslated \<and> doc_Status s' \<noteq> DocumentStatusError \<and>
      (\<exists>cause. err = Wrapf ''failed to get document status: '' cause) \<and>
      Documents_Translate (Inr d') ticks' download = Some (Inl (Wrapf ''failed to wait for translation: '' err)))"
proof (intro conjI impI)
  assume "doc_Status d0 = DocumentStatusTranslated \<or> doc_Status d0 = DocumentStatusError"
  then show "waitForTranslation d0 ticks0 = Some (d0, None, [])"
    by (rule waitForTranslation_terminal)
next
  assume "doc_Status cur \<noteq> DocumentStatusTranslated \<and> doc_Status cur \<noteq> DocumentStatusError \<and>
      get t (''/documents/'' @ doc_ID cur) = Inr u"
  then show "waitForTranslation cur (t # ts) =
        after [Sleep (2 * Second), Get (''/documents/'' @ doc_ID cur) (Inr u)] (waitForTranslation u ts)"
    by (intro waitForTranslation_step) simp_all
next
  assume run: "waitForTranslation d ticks = Some (s, None, tr)"
  then show "doc_Status s = DocumentStatusTranslated \<or> doc_Status s = DocumentStatusError"
    using waitForTranslation_loop_result[of d ticks s None tr] by (simp add: waitForTranslation_def)
  from run show "Documents_TranslateWithOptions (Inr d) ticks download options =
        (if doc_Status s = DocumentStatusError then
           Some (Inl (Errorf (''document translation failed: '' @
                   (case doc_ErrorReason s of None \<Rightarrow> ''translation failed'' | Some reason \<Rightarrow> reason))))
         else Some (download (doc_ID s) (case options of None \<Rightarrow> [] | Some opts \<Rightarrow> OutputFormat opts)))"
    by (simp add: Documents_TranslateWithOptions_def split: option.splits)
  from run show "Documents_Translate (Inr d) ticks download =
        (if doc_Status s = DocumentStatusError then
           Some (Inl (Errorf (''document translation failed: '' @
                   (case doc_ErrorReason s of None \<Rightarrow> ''translation failed'' | Some reason \<Rightarrow> reason))))
         else Some (download (doc_ID s) []))"
    by (simp add: Documents_Translate_def Documents_TranslateWithOptions_def)
next
  assume run: "waitForTranslation d' ticks' = Some (s', Some err, tr')"
  then have *: "doc_Status s' \<noteq> DocumentStatusTranslated \<and> doc_Status s' \<noteq> DocumentStatusError \<and>
      (\<exists>cause. err = Wrapf ''failed to get document status: '' cause)"
    using waitForTranslation_loop_result[of d' ticks' s' "Some err" tr'] by (simp add: waitForTranslation_def)
  from * show "doc_Status s' \<noteq> DocumentStatusTranslated" by simp
  from * show "doc_Status s' \<noteq> DocumentStatusError" by simp
  from * show "\<exists>cause. err = Wrapf ''failed to get document status: '' cause" by simp
  from run show "Documents_Translate (Inr d') ticks' download =
      Some (Inl (Wrapf ''failed to wait for translation: '' err))"
    by (simp add: Documents_Translate_def Documents_TranslateWithOptions_def)
qed

theorem waitForTranslation_completion_witness:
  "(doc_Status (document_at ''d'' ''error'' (Some ''bad file'')) = DocumentStatusTranslated \<or>
    doc_Status (document_at ''d'' ''error'' (Some ''bad file'')) = DocumentStatusError) \<and>
   waitForTranslation (document_at ''d'' ''error'' (Some ''bad file'')) [] =
     Some (document_at ''d'' ''error'' (Some ''bad file''), None, []) \<and>
   doc_Status (document_at ''d'' ''translating'' None) \<noteq> DocumentStatusTranslated \<and>
   doc_Status (document_at ''d'' ''translating'' None) \<noteq> DocumentStatusError \<and>
   get (answering 0 (Inr (document_at ''d'' ''error'' (Some ''bad file''))))
     (''/documents/'' @ doc_ID (document_at ''d'' ''translating'' None)) =
     Inr (document_at ''d'' ''error'' (Some ''bad file'')) \<and>
   waitForTranslation (document_at ''d'' ''translating'' None)
     [answering 0 (Inr (document_at ''d'' ''error'' (Some ''bad file'')))] =
     Some (document_at ''d'' ''error'' (Some ''bad file''), None,
           [Sleep (2 * Second), Get ''/documents/d'' (Inr (document_at ''d'' ''error'' (Some ''bad file'')))]) \<and>
   Documents_Translate (Inr (document_at ''d'' ''translating'' None))
     [answering 0 (Inr (document_at ''d'' ''error'' (Some ''bad file'')))] (download_as ''ciao'') =
     Some (Inl (Errorf ''document translation failed: bad file'')) \<and>
   waitForTranslation (document_at ''d'' ''translating'' None)
     [answering 0 (Inl (LaraConnectionError ''reset''))] =
     Some (document_at ''d'' ''translating'' None,
           Some (Wrapf ''failed to get document status: '' (LaraConnectionError ''reset'')),
           [Sleep (2 * Second), Get ''/documents/d'' (Inl (LaraConnectionError ''reset''))]) \<and>
   Documents_Translate (Inr (document_at ''d'' ''translating'' None))
     [answering 0 (Inl (LaraConnectionError ''reset''))] (download_as ''ciao'') =
     Some (Inl (Wrapf ''failed to wait for translation: ''
                 (Wrapf ''failed to get document status: '' (LaraConnectionError ''reset''))))"
proof -
  let ?bad = "document_at ''d'' ''error'' (Some ''bad file'')"
  let ?busy = "document_at ''d'' ''translating'' None"
  let ?t = "answering 0 (Inr ?bad) :: Document tick"
  let ?f = "answering 0 (Inl (LaraConnectionError ''reset'')) :: Document tick"
  let ?ferr = "Wrapf ''failed to get document status: '' (LaraConnectionError ''reset'')"
  let ?tr = "[Sleep (2 * Second), Get ''/documents/d'' (Inr ?bad)] :: Document event list"
  let ?ftr = "[Sleep (2 * Second), Get ''/documents/d'' (Inl (LaraConnectionError ''reset''))] :: Document event list"
  note th = waitForTranslation_completion[where ?d0.0 = ?bad and ?ticks0.0 = "[]" and cur = ?busy and t = ?t
      and u = ?bad and ts = "[]" and d = ?busy and ticks = "[?t]" and s = ?bad and tr = ?tr
      and download = "download_as ''ciao''" and options = None
      and d' = ?busy and ticks' = "[?f]" and s' = ?busy and err = ?ferr and tr' = ?ftr]
  have h1: "doc_Status ?bad = DocumentStatusTranslated \<or> doc_Status ?bad = DocumentStatusError"
    by (simp add: document_at_def DocumentStatusError_def)
  have h2: "doc_Status ?busy \<noteq> DocumentStatusTranslated \<and> doc_Status ?busy \<noteq> DocumentStatusError \<and>
      get ?t (''/documents/'' @ doc_ID ?busy) = Inr ?bad"
    by (simp add: document_at_def DocumentStatusError_def DocumentStatusTranslated_def answering_def)
  from th h1 have c1: "waitForTranslation ?bad [] = Some (?bad, None, [])"
    by blast
  from th h2 have "waitForTranslation ?busy [?t] =
      after [Sleep (2 * Second), Get (''/documents/'' @ doc_ID ?busy) (Inr ?bad)] (waitForTranslation ?bad [])"
    by blast
  then have c2: "waitForTranslation ?busy [?t] = Some (?bad, None, ?tr)"
    by (simp add: c1) (simp add: document_at_def)
  from th c2 have "Documents_Translate (Inr ?busy) [?t] (download_as ''ciao'') =
        (if doc_Status ?bad = DocumentStatusError then
           Some (Inl (Errorf (''document translation failed: '' @
                   (case doc_ErrorReason ?bad of None \<Rightarrow> ''translation failed'' | Some reason \<Rightarrow> reason))))
         else Some ((download_as ''ciao'') (doc_ID ?bad) []))"
    by blast
  then have c3: "Documents_Translate (Inr ?busy) [?t] (download_as ''ciao'') =
      Some (Inl (Errorf ''document translation failed: bad file''))"
    by (simp add: document_at_def DocumentStatusError_def)
  have h4: "waitForTranslation ?busy [?f] = Some (?busy, Some ?ferr, ?ftr)"
    by (simp add: waitForTranslation_def Documents_Status_def document_at_def answering_def
          DocumentStatusError_def DocumentStatusTranslated_def waitForTranslation_maxWaitTime_def
          Sprintf.simps)
  from th h4 have c4: "Documents_Translate (Inr ?busy) [?f] (download_as ''ciao'') =
      Some (Inl (Wrapf ''failed to wait for translation: '' ?ferr))"
    by blast
  show ?thesis
    using h1 h2 c1 c2 c3 h4 c4 by blast
qed


section \<open>Properties of the signature\<close>

lemma decodeStd_encodeStd: "n < 64 \<Longrightarrow> decodeStd (encodeStd n) = Some n"
  unfolding decodeStd_def encodeStd_def Let_def
  by (auto simp: of_char_of)

lemma encodeStd_code: "(of_char (encodeStd n) :: nat) \<in> {65..90} \<union> {97..122} \<union> {48..57} \<union> {43, 47}"
  unfolding encodeStd_def by (auto simp: of_char_of)

lemma encodeStd_not_pad: "encodeStd n \<noteq> CHR ''=''"
proof
  assume "encodeStd n = CHR ''=''"
  then have "(of_char (encodeStd n) :: nat) = 61" by simp
  with encodeStd_code[of n] show False by auto
qed

lemma encodeStd_not_cr: "encodeStd n \<noteq> CHR 0x0D"
proof
  assume "encodeStd n = CHR 0x0D"
  then have "(of_char (encodeStd n) :: nat) = 13" by simp
  with encodeStd_code[of n] show False by auto
qed

lemma encodeStd_not_lf: "encodeStd n \<noteq> CHR 0x0A"
proof
  assume "encodeStd n = CHR 0x0A"
  then have "(of_char (encodeStd n) :: nat) = 10" by simp
  with encodeStd_code[of n] show False by auto
qed

lemma encode_no_newlines:
  "filter (\<lambda>c. c \<noteq> CHR 0x0D \<and> c \<noteq> CHR 0x0A) (base64_EncodeToString bs) = base64_EncodeToString bs"
  by (induction bs rule: base64_EncodeToString.induct)
     (simp_all add: encodeStd_not_cr encodeStd_not_lf)

lemma sextets:
  fixes a b c :: nat
  assumes "a < 256" "b < 256" "c < 256"
  shows "a div 4 < 64" "a mod 4 * 16 < 64" "a mod 4 * 16 + b div 16 < 64" "b mod 16 * 4 < 64"
        "b mod 16 * 4 + c div 64 < 64" "c mod 64 < 64"
  using assms by auto

lemma hi_lo_div: "(y::nat) < k \<Longrightarrow> (x * k + y) div k = x"
  by simp

lemma hi_lo_mod: "(y::nat) < k \<Longrightarrow> (x * k + y) mod k = y"
  by simp

lemma octets:
  fixes a b c :: nat
  assumes "a < 256" "b < 256" "c < 256"
  shows "a div 4 * 4 + (a mod 4 * 16) div 16 = a"
        "a div 4 * 4 + (a mod 4 * 16 + b div 16) div 16 = a"
        "(a mod 4 * 16 + b div 16) mod 16 * 16 + (b mod 16 * 4) div 4 = b"
        "(a mod 4 * 16 + b div 16) mod 16 * 16 + (b mod 16 * 4 + c div 64) div 4 = b"
        "(b mod 16 * 4 + c div 64) mod 4 * 64 + c mod 64 = c"
proof -
  have b16: "b div 16 < 16" and c64: "c div 64 < 4"
    using assms by simp_all
  show "a div 4 * 4 + (a mod 4 * 16) div 16 = a"
    by simp
  show "a div 4 * 4 + (a mod 4 * 16 + b div 16) div 16 = a"
    by (simp only: hi_lo_div[OF b16]) simp
  show "(a mod 4 * 16 + b div 16) mod 16 * 16 + (b mod 16 * 4) div 4 = b"
    by (simp only: hi_lo_mod[OF b16]) simp
  show "(a mod 4 * 16 + b div 16) mod 16 * 16 + (b mod 16 * 4 + c div 64) div 4 = b"
    by (simp only: hi_lo_mod[OF b16] hi_lo_div[OF c64]) simp
  show "(b mod 16 * 4 + c div 64) mod 4 * 64 + c mod 64 = c"
    by (simp only: hi_lo_mod[OF c64]) simp
qed

lemma decode_quanta_encode: "decode_quanta (base64_EncodeToString bs) = Some bs"
proof (induction bs rule: base64_EncodeToString.induct)
  case 1
  show ?case by simp
next
  case (2 a)
  define x where "x = (of_char a :: nat) div 4"
  define y where "y = (of_char a :: nat) mod 4 * 16"
  have lt: "x < 64" "y < 64"
    using sextets[of "of_char a" 0 0] by (simp_all add: x_def y_def)
  have "x * 4 + y div 16 = of_char a"
    using octets(1)[of "of_char a" 0 0] by (simp add: x_def y_def)
  then have recomp: "char_of (x * 4 + y div 16) = a"
    by simp
  have "base64_EncodeToString [a] = [encodeStd x, encodeStd y, CHR ''='', CHR ''='']"
    by (simp add: x_def y_def)
  then show ?case
    by (simp add: decodeStd_encodeStd lt recomp)
next
  case (3 a b)
  define x where "x = (of_char a :: nat) div 4"
  define y where "y = (of_char a :: nat) mod 4 * 16 + of_char b div 16"
  define z where "z = (of_char b :: nat) mod 16 * 4"
  have lt: "x < 64" "y < 64" "z < 64"
    using sextets[of "of_char a" "of_char b" 0] by (simp_all add: x_def y_def z_def)
  have "x * 4 + y div 16 = of_char a" "y mod 16 * 16 + z div 4 = of_char b"
    using octets(2,3)[of "of_char a" "of_char b" 0] by (simp_all add: x_def y_def z_def)
  then have recomp: "char_of (x * 4 + y div 16) = a" "char_of (y mod 16 * 16 + z div 4) = b"
    by simp_all
  have "base64_EncodeToString [a, b] = [encodeStd x, encodeStd y, encodeStd z, CHR ''='']"
    by (simp add: x_def y_def z_def)
  then show ?case
    by (simp add: decodeStd_encodeStd lt recomp encodeStd_not_pad)
next
  case (4 a b c rest)
  define x where "x = (of_char a :: nat) div 4"
  define y where "y = (of_char a :: nat) mod 4 * 16 + of_char b div 16"
  define z where "z = (of_char b :: nat) mod 16 * 4 + of_char c div 64"
  define w where "w = (of_char c :: nat) mod 64"
  have lt: "x < 64" "y < 64" "z < 64" "w < 64"
    using sextets[of "of_char a" "of_char b" "of_char c"] by (simp_all add: x_def y_def z_def w_def)
  have "x * 4 + y div 16 = of_char a" "y mod 16 * 16 + z div 4 = of_char b"
       "z mod 4 * 64 + w = of_char c"
    using octets(2,4,5)[of "of_char a" "of_char b" "of_char c"]
    by (simp_all add: x_def y_def z_def w_def)
  then have recomp: "char_of (x * 4 + y div 16) = a" "char_of (y mod 16 * 16 + z div 4) = b"
       "char_of (z mod 4 * 64 + w) = c"
    by simp_all
  have "base64_EncodeToString (a # b # c # rest) =
          encodeStd x # encodeStd y # encodeStd z # encodeStd w # base64_EncodeToString rest"
    by (simp add: x_def y_def z_def w_def)
  then show ?case
    by (simp only: decode_quanta.simps decodeStd_encodeStd[OF lt(1)] decodeStd_encodeStd[OF lt(2)]
          decodeStd_encodeStd[OF lt(3)] decodeStd_encodeStd[OF lt(4)] recomp encodeStd_not_pad "4.IH"
          option.case prod.case if_False option.map)
qed

lemma base64_roundtrip: "base64_DecodeString (base64_EncodeToString bs) = Some bs"
  by (simp add: base64_DecodeString_def encode_no_newlines decode_quanta_encode)

lemma length_sha256_Sum: "length (sha256_Sum m) = 32"
proof -
  obtain a b c d e f g h where
    "foldl compress256 H256 (chunks (length (sha256_pad m) div 64) 64 (sha256_pad m)) = (a, b, c, d, e, f, g, h)"
    by (metis prod_cases3)
  then show ?thesis by (simp add: sha256_Sum_def be32_bytes_def)
qed

lemma length_md5_Sum: "length (md5_Sum m) = 16"
proof -
  obtain a b c d where
    "foldl compress_md5 H_md5 (chunks (length (md5_pad m) div 64) 64 (md5_pad m)) = (a, b, c, d)"
    by (metis prod_cases3)
  then show ?thesis by (simp add: md5_Sum_def le32_bytes_def)
qed

lemma length_hex: "length (hex bs) = 2 * length bs"
  by (induction bs) (simp_all add: hex_def)

lemma length_hmac: "length (hmac_sha256 k m) = 32"
  by (simp add: hmac_sha256_def Let_def length_sha256_Sum)

lemma Sprintf_five:
  "Sprintf ''%s\<newline>%s\<newline>%s\<newline>%s\<newline>%s'' [a, b, c, d, e] =
     joined ''\<newline>'' [a, b, c, d, e]"
  by (simp add: Sprintf.simps)

lemma sign_joined:
  "sign c method path contentHash contentType date =
     base64_EncodeToString
       (hmac_sha256 (accessKeySecret c)
          (joined ''\<newline>'' [strings_ToUpper method, path, contentHash, contentType, date]))"
  unfolding sign_def Let_def Sprintf_five ..

text \<open>
  Claim C1.  For every method, path, content hash, content type and date, \<open>sign\<close> is the base64
  encoding of the HMAC-SHA256 digest, keyed by the secret of the client, of the five fields joined
  by newline characters in the order upper-cased method, path, content hash, content type, date;
  an empty field stays an empty string between its newlines.  Decoding the signature gives the
  digest back, and its length is 32 bytes for every input.  The value depends on the secret and the
  five arguments only (\<open>sign\<close> is a total function: it has no failure).
\<close>

theorem sign_is_hmac:
  "sign c method path contentHash contentType date =
     base64_EncodeToString
       (hmac_sha256 (accessKeySecret c)
          (joined ''\<newline>'' [strings_ToUpper method, path, contentHash, contentType, date]))
   \<and> joined ''\<newline>'' [strings_ToUpper method, path, contentHash, contentType, date] =
       strings_ToUpper method @ ''\<newline>'' @ path @ ''\<newline>'' @ contentHash @ ''\<newline>'' @
       contentType @ ''\<newline>'' @ date
   \<and> base64_DecodeString (sign c method path contentHash contentType date) =
       Some (hmac_sha256 (accessKeySecret c)
          (joined ''\<newline>'' [strings_ToUpper method, path, contentHash, contentType, date]))
   \<and> map_option length (base64_DecodeString (sign c method path contentHash contentType date)) = Some 32
   \<and> sign (c\<lparr>accessKeyID := k, baseURL := b, sdkName := n, sdkVersion := v\<rparr>) method path contentHash contentType date =
       sign c method path contentHash contentType date"
  by (simp add: sign_joined base64_roundtrip length_hmac)

section \<open>Properties of a request\<close>

lemma apiError_404:
  "json_Unmarshal_apiError ''{\"status\":404,\"error\":{\"type\":\"NotFound\",\"message\":\"nope\"}}'' =
     Inr \<lparr>Status = 404, Type = ''NotFound'', Message = ''nope''\<rparr>"
  by code_simp


lemma answer_404:
  "request_answer (Response 404 (Inr ''{\"status\":404,\"error\":{\"type\":\"NotFound\",\"message\":\"nope\"}}'')) =
     Inl (LaraError 404 ''NotFound'' ''nope'')"
  by (simp add: request_answer_def apiError_404)








lemma kind_generic [simp]: "kind_of (Errorf (''API error: '' @ body)) = GenericAPI"
  by simp







section \<open>Properties of the request that is built\<close>

lemma canonical_keys:
  "CanonicalMIMEHeaderKey ''X-HTTP-Method-Override'' = ''X-Http-Method-Override''"
  "CanonicalMIMEHeaderKey ''Date'' = ''Date''"
  "CanonicalMIMEHeaderKey ''X-Lara-SDK-Name'' = ''X-Lara-Sdk-Name''"
  "CanonicalMIMEHeaderKey ''X-Lara-SDK-Version'' = ''X-Lara-Sdk-Version''"
  "CanonicalMIMEHeaderKey ''Content-Type'' = ''Content-Type''"
  "CanonicalMIMEHeaderKey ''Content-MD5'' = ''Content-Md5''"
  "CanonicalMIMEHeaderKey ''Authorization'' = ''Authorization''"
  by code_simp+

lemma set_all_lookup:
  "set_all h kvs k = (case set_all Map.empty kvs k of Some v \<Rightarrow> Some v | None \<Rightarrow> h k)"
proof (induction kvs arbitrary: h)
  case Nil
  show ?case by simp
next
  case (Cons kv kvs)
  obtain k' v' where kv: "kv = (k', v')" by (cases kv)
  show ?case
    unfolding kv set_all.simps
    by (subst Cons.IH, subst (2) Cons.IH) (simp add: Header_Set_def split: option.splits)
qed

lemma hex_md5_nonempty: "hex (md5_Sum bs) \<noteq> []"
proof -
  have "length (hex (md5_Sum bs)) = 32"
    by (simp add: length_hex length_md5_Sum)
  then show ?thesis by auto
qed

lemma FormDataContentType_nonempty: "FormDataContentType b \<noteq> []"
  by (simp add: FormDataContentType_def)

lemma fixed_headers_lookup:
  "fixed_headers w c meth contentMD5 contentType ''X-Http-Method-Override'' = Some meth"
  "fixed_headers w c meth contentMD5 contentType ''Date'' = Some (httpDate w)"
  "fixed_headers w c meth contentMD5 contentType ''X-Lara-Sdk-Name'' = Some (sdkName c)"
  "fixed_headers w c meth contentMD5 contentType ''X-Lara-Sdk-Version'' = Some (sdkVersion c)"
  "fixed_headers w c meth contentMD5 contentType ''Content-Type'' =
     (if contentType \<noteq> [] then Some contentType else None)"
  "fixed_headers w c meth contentMD5 contentType ''Content-Md5'' =
     (if contentMD5 \<noteq> [] then Some contentMD5 else None)"
  "fixed_headers w c meth contentMD5 contentType ''Authorization'' = None"
  by (simp_all add: fixed_headers_def Header_Set_def canonical_keys Let_def)

lemma signed_headers_other:
  "k \<noteq> ''Authorization'' \<Longrightarrow>
   signed_headers c meth path contentMD5 contentType h headers k =
     (case set_all Map.empty headers k of Some v \<Rightarrow> Some v | None \<Rightarrow> h k)"
  by (subst set_all_lookup[symmetric])
     (simp add: signed_headers_def Let_def Header_Set_def canonical_keys)

lemma signed_headers_Authorization:
  "signed_headers c meth path contentMD5 contentType h headers ''Authorization'' =
     (if accessKeyID c \<noteq> [] \<and> accessKeySecret c \<noteq> [] then
        Some (''Lara '' @ accessKeyID c @ '':'' @
              sign c meth path contentMD5 contentType
                (case set_all h headers ''Date'' of None \<Rightarrow> [] | Some d \<Rightarrow> d))
      else set_all h headers ''Authorization'')"
  by (simp add: signed_headers_def Let_def Header_Set_def Header_Get_def canonical_keys)


lemma copy_files_names: "copy_files files = Inr ps \<Longrightarrow> map part_name ps = map fst files"
  by (induction files arbitrary: ps rule: copy_files.induct) (auto split: sum.splits)

lemma copy_files_data: "copy_files files = Inr ps \<Longrightarrow> map (Inr \<circ> part_data) ps = map snd files"
  by (induction files arbitrary: ps rule: copy_files.induct) (auto split: sum.splits)

lemma request_body_Inr:
  assumes "request_body w body files = Inr (rd, contentMD5, contentType)"
  shows "contentType = (if files \<noteq> [] then FormDataContentType (boundary w)
                        else if body \<noteq> None then ''application/json'' else [])"
    and "contentMD5 = (case rd of None \<Rightarrow> [] | Some bytes \<Rightarrow> hex (md5_Sum bytes))"
    and "rd = None \<longleftrightarrow> files = [] \<and> body = None"
  using assms
  by (auto simp: request_body_def Let_def split: if_splits sum.splits option.splits)

lemma request_prepare_Inr:
  assumes "request_prepare w c meth path params body files headers = Inr req"
    and "request_body w body files = Inr (rd, contentMD5, contentType)"
  shows "req = \<lparr>Method = meth,
               URL = baseURL c @ (if \<not> strings_HasPrefix path ''/'' then ''/'' @ path else path) @
                     (if length params > 0 then ''?'' @ url_Encode w params else []),
               Body = rd,
               Headers = signed_headers c meth (if \<not> strings_HasPrefix path ''/'' then ''/'' @ path else path)
                           contentMD5 contentType (fixed_headers w c meth contentMD5 contentType) headers\<rparr>"
  using assms
  by (auto simp: request_prepare_def Let_def split: option.splits)

text \<open>
  Claim C6.  With attachments the body is the multipart buffer: one form file per attachment,
  named by its field key and holding its content, in the order the attachments are visited, then
  a form field \<open>json\<close> holding the serialised JSON body when one is supplied; the content type is
  \<open>multipart/form-data; boundary=...\<close> and the content MD5 is the hex MD5 of the whole buffer,
  with or without a JSON body.  With a JSON body only, the body is its serialisation, the content
  type is \<open>application/json\<close> and the content MD5 is the hex MD5 of those bytes.  With neither,
  there is no body and both are empty.  The request handed to the transport carries that body; no
  body is sent exactly when there are neither attachments nor a JSON body.  The client sets the
  \<open>Content-Type\<close> and \<open>Content-MD5\<close> headers to these values, and sets neither when there is no
  body; the request carries what the client set unless the caller's own headers name the same
  header (see C8).
\<close>

theorem request_body_selection:
  "(files \<noteq> [] \<and> copy_files files = Inr ps \<longrightarrow>
      map part_name ps = map fst files \<and> map (Inr \<circ> part_data) ps = map snd files \<and>
      request_body w None files =
        Inr (Some (multipart_bytes (boundary w) ps),
             hex (md5_Sum (multipart_bytes (boundary w) ps)),
             FormDataContentType (boundary w)))
   \<and> (files \<noteq> [] \<and> copy_files files = Inr ps \<and> json_Marshal w b = Inr jsonBytes \<longrightarrow>
      request_body w (Some b) files =
        Inr (Some (multipart_bytes (boundary w) (ps @ [FormField ''json'' jsonBytes])),
             hex (md5_Sum (multipart_bytes (boundary w) (ps @ [FormField ''json'' jsonBytes]))),
             FormDataContentType (boundary w)))
   \<and> take 30 (FormDataContentType (boundary w)) = ''multipart/form-data; boundary=''
   \<and> (json_Marshal w b = Inr bodyBytes \<longrightarrow>
      request_body w (Some b) [] = Inr (Some bodyBytes, hex (md5_Sum bodyBytes), ''application/json''))
   \<and> request_body w None [] = Inr (None, [], [])
   \<and> (request_prepare w c meth path params body files' headers = Inr req \<and>
      request_body w body files' = Inr (rd, digest, ctype) \<longrightarrow>
      Body req = rd \<and>
      (rd = None \<longleftrightarrow> files' = [] \<and> body = None) \<and>
      fixed_headers w c meth digest ctype ''Content-Type'' =
        (if files' \<noteq> [] then Some (FormDataContentType (boundary w))
         else if body \<noteq> None then Some ''application/json'' else None) \<and>
      fixed_headers w c meth digest ctype ''Content-Md5'' =
        (case rd of None \<Rightarrow> None | Some bytes \<Rightarrow> Some (hex (md5_Sum bytes))) \<and>
      Headers req ''Content-Type'' =
        (case set_all Map.empty headers ''Content-Type'' of
           Some v \<Rightarrow> Some v
         | None \<Rightarrow> fixed_headers w c meth digest ctype ''Content-Type'') \<and>
      Headers req ''Content-Md5'' =
        (case set_all Map.empty headers ''Content-Md5'' of
           Some v \<Rightarrow> Some v
         | None \<Rightarrow> fixed_headers w c meth digest ctype ''Content-Md5''))"
proof (intro conjI impI)
  assume a: "files \<noteq> [] \<and> copy_files files = Inr ps"
  then show "map part_name ps = map fst files"
    by (intro copy_files_names) simp
  from a show "map (Inr \<circ> part_data) ps = map snd files"
    by (intro copy_files_data) simp
  from a show "request_body w None files =
        Inr (Some (multipart_bytes (boundary w) ps),
             hex (md5_Sum (multipart_bytes (boundary w) ps)),
             FormDataContentType (boundary w))"
    by (simp add: request_body_def Let_def)
next
  assume "files \<noteq> [] \<and> copy_files files = Inr ps \<and> json_Marshal w b = Inr jsonBytes"
  then show "request_body w (Some b) files =
        Inr (Some (multipart_bytes (boundary w) (ps @ [FormField ''json'' jsonBytes])),
             hex (md5_Sum (multipart_bytes (boundary w) (ps @ [FormField ''json'' jsonBytes]))),
             FormDataContentType (boundary w))"
    by (simp add: request_body_def Let_def)
next
  show "take 30 (FormDataContentType (boundary w)) = ''multipart/form-data; boundary=''"
    by (simp add: FormDataContentType_def)
next
  assume "json_Marshal w b = Inr bodyBytes"
  then show "request_body w (Some b) [] = Inr (Some bodyBytes, hex (md5_Sum bodyBytes), ''application/json'')"
    by (simp add: request_body_def)
next
  show "request_body w None [] = Inr (None, [], [])"
    by (simp add: request_body_def)
next
  assume a: "request_prepare w c meth path params body files' headers = Inr req \<and>
      request_body w body files' = Inr (rd, digest, ctype)"
  then have p: "request_prepare w c meth path params body files' headers = Inr req"
    and rb: "request_body w body files' = Inr (rd, digest, ctype)"
    by simp_all
  note shape = request_body_Inr[OF rb]
  note req = request_prepare_Inr[OF p rb]
  show "Body req = rd"
    by (simp add: req)
  show none: "rd = None \<longleftrightarrow> files' = [] \<and> body = None"
    by (rule shape(3))
  show ct: "fixed_headers w c meth digest ctype ''Content-Type'' =
        (if files' \<noteq> [] then Some (FormDataContentType (boundary w))
         else if body \<noteq> None then Some ''application/json'' else None)"
    by (simp add: fixed_headers_lookup shape(1) FormDataContentType_nonempty)
  show md: "fixed_headers w c meth digest ctype ''Content-Md5'' =
        (case rd of None \<Rightarrow> None | Some bytes \<Rightarrow> Some (hex (md5_Sum bytes)))"
    by (simp add: fixed_headers_lookup shape(2) hex_md5_nonempty split: option.splits)
  show "Headers req ''Content-Type'' =
        (case set_all Map.empty headers ''Content-Type'' of
           Some v \<Rightarrow> Some v
         | None \<Rightarrow> fixed_headers w c meth digest ctype ''Content-Type'')"
    by (simp add: req signed_headers_other)
  show "Headers req ''Content-Md5'' =
        (case set_all Map.empty headers ''Content-Md5'' of
           Some v \<Rightarrow> Some v
         | None \<Rightarrow> fixed_headers w c meth digest ctype ''Content-Md5'')"
    by (simp add: req signed_headers_other)
qed


theorem request_body_selection_witness:
  "[(''tmx'', Inr ''<tmx/>'')] \<noteq> ([] :: (string \<times> reader) list) \<and>
   copy_files [(''tmx'', Inr ''<tmx/>'')] = Inr [FormFile ''tmx'' ''tmx'' ''<tmx/>''] \<and>
   json_Marshal (world_answering (DoError ''refused'')) ''{}'' = Inr ''{}'' \<and>
   request_body (world_answering (DoError ''refused'')) None [(''tmx'', Inr ''<tmx/>'')] =
     Inr (Some (multipart_bytes ''0123456789abcdef'' [FormFile ''tmx'' ''tmx'' ''<tmx/>'']),
          hex (md5_Sum (multipart_bytes ''0123456789abcdef'' [FormFile ''tmx'' ''tmx'' ''<tmx/>''])),
          FormDataContentType ''0123456789abcdef'') \<and>
   request_body (world_answering (DoError ''refused'')) (Some ''{}'') [(''tmx'', Inr ''<tmx/>'')] =
     Inr (Some (multipart_bytes ''0123456789abcdef'' [FormFile ''tmx'' ''tmx'' ''<tmx/>'', FormField ''json'' ''{}'']),
          hex (md5_Sum (multipart_bytes ''0123456789abcdef'' [FormFile ''tmx'' ''tmx'' ''<tmx/>'', FormField ''json'' ''{}''])),
          FormDataContentType ''0123456789abcdef'') \<and>
   request_body (world_answering (DoError ''refused'')) (Some ''{}'') [] =
     Inr (Some ''{}'', hex (md5_Sum ''{}''), ''application/json'') \<and>
   request_prepare (world_answering (DoError ''refused'')) (newClient [] [] ''https://api.laratranslate.com'')
     ''POST'' ''/memories'' [] (Some ''{}'') [] [] =
     Inr \<lparr>Method = ''POST'', URL = ''https://api.laratranslate.com/memories'', Body = Some ''{}'',
          Headers = signed_headers (newClient [] [] ''https://api.laratranslate.com'') ''POST'' ''/memories''
                      (hex (md5_Sum ''{}'')) ''application/json''
                      (fixed_headers (world_answering (DoError ''refused''))
                         (newClient [] [] ''https://api.laratranslate.com'') ''POST''
                         (hex (md5_Sum ''{}'')) ''application/json'') []\<rparr> \<and>
   signed_headers (newClient [] [] ''https://api.laratranslate.com'') ''POST'' ''/memories''
     (hex (md5_Sum ''{}'')) ''application/json''
     (fixed_headers (world_answering (DoError ''refused''))
        (newClient [] [] ''https://api.laratranslate.com'') ''POST''
        (hex (md5_Sum ''{}'')) ''application/json'') [] ''Content-Type'' = Some ''application/json'' \<and>
   signed_headers (newClient [] [] ''https://api.laratranslate.com'') ''POST'' ''/memories''
     (hex (md5_Sum ''{}'')) ''application/json''
     (fixed_headers (world_answering (DoError ''refused''))
        (newClient [] [] ''https://api.laratranslate.com'') ''POST''
        (hex (md5_Sum ''{}'')) ''application/json'') [] ''Content-Md5'' = Some (hex (md5_Sum ''{}''))"
proof -
  let ?w = "world_answering (DoError ''refused'')"
  let ?c = "newClient [] [] ''https://api.laratranslate.com''"
  let ?files = "[(''tmx'', Inr ''<tmx/>'')] :: (string \<times> reader) list"
  let ?ps = "[FormFile ''tmx'' ''tmx'' ''<tmx/>'']"
  let ?md = "hex (md5_Sum ''{}'')"
  let ?h = "signed_headers ?c ''POST'' ''/memories'' ?md ''application/json''
              (fixed_headers ?w ?c ''POST'' ?md ''application/json'') []"
  let ?req = "\<lparr>Method = ''POST'', URL = ''https://api.laratranslate.com/memories'', Body = Some ''{}'',
                Headers = ?h\<rparr>"
  note th = request_body_selection[where files = ?files and ps = ?ps and w = ?w and b = "''{}''"
      and jsonBytes = "''{}''" and bodyBytes = "''{}''" and c = ?c and meth = "''POST''"
      and path = "''/memories''" and params = "[]" and body = "Some ''{}''" and files' = "[]"
      and headers = "[]" and req = ?req and rd = "Some ''{}''" and digest = ?md
      and ctype = "''application/json''"]
  note t1 = th[THEN conjunct1]
  note t2 = th[THEN conjunct2, THEN conjunct1]
  note t4 = th[THEN conjunct2, THEN conjunct2, THEN conjunct2, THEN conjunct1]
  note t6 = th[THEN conjunct2, THEN conjunct2, THEN conjunct2, THEN conjunct2, THEN conjunct2]
  have bd: "boundary ?w = ''0123456789abcdef''"
    by (simp add: world_answering_def)
  have h1: "?files \<noteq> [] \<and> copy_files ?files = Inr ?ps"
    by simp
  have m: "json_Marshal ?w ''{}'' = Inr ''{}''"
    by (simp add: world_answering_def)
  from h1 m have h2: "?files \<noteq> [] \<and> copy_files ?files = Inr ?ps \<and> json_Marshal ?w ''{}'' = Inr ''{}''"
    by simp
  from t1 h1 have c1: "map part_name ?ps = map fst ?files \<and> map (Inr \<circ> part_data) ?ps = map snd ?files \<and>
      request_body ?w None ?files =
        Inr (Some (multipart_bytes (boundary ?w) ?ps), hex (md5_Sum (multipart_bytes (boundary ?w) ?ps)),
             FormDataContentType (boundary ?w))"
    by (rule mp)
  from t2 h2 have c2: "request_body ?w (Some ''{}'') ?files =
        Inr (Some (multipart_bytes (boundary ?w) (?ps @ [FormField ''json'' ''{}''])),
             hex (md5_Sum (multipart_bytes (boundary ?w) (?ps @ [FormField ''json'' ''{}'']))),
             FormDataContentType (boundary ?w))"
    by (rule mp)
  from t4 m have c4: "request_body ?w (Some ''{}'') [] = Inr (Some ''{}'', ?md, ''application/json'')"
    by (rule mp)
  have p: "request_prepare ?w ?c ''POST'' ''/memories'' [] (Some ''{}'') [] [] = Inr ?req"
    by (simp add: request_prepare_def c4 Let_def strings_HasPrefix_def)
       (simp add: world_answering_def newClient_def strings_TrimRight_def)
  from p c4 have h6: "request_prepare ?w ?c ''POST'' ''/memories'' [] (Some ''{}'') [] [] = Inr ?req \<and>
      request_body ?w (Some ''{}'') [] = Inr (Some ''{}'', ?md, ''application/json'')"
    by (rule conjI)
  from t6 h6 have c6: "Body ?req = Some ''{}'' \<and>
      (Some ''{}'' = None \<longleftrightarrow> ([] :: (string \<times> reader) list) = [] \<and> Some ''{}'' = None) \<and>
      fixed_headers ?w ?c ''POST'' ?md ''application/json'' ''Content-Type'' =
        (if ([] :: (string \<times> reader) list) \<noteq> [] then Some (FormDataContentType (boundary ?w))
         else if Some ''{}'' \<noteq> None then Some ''application/json'' else None) \<and>
      fixed_headers ?w ?c ''POST'' ?md ''application/json'' ''Content-Md5'' =
        (case Some ''{}'' of None \<Rightarrow> None | Some bytes \<Rightarrow> Some (hex (md5_Sum bytes))) \<and>
      Headers ?req ''Content-Type'' =
        (case set_all Map.empty [] ''Content-Type'' of
           Some v \<Rightarrow> Some v
         | None \<Rightarrow> fixed_headers ?w ?c ''POST'' ?md ''application/json'' ''Content-Type'') \<and>
      Headers ?req ''Content-Md5'' =
        (case set_all Map.empty [] ''Content-Md5'' of
           Some v \<Rightarrow> Some v
         | None \<Rightarrow> fixed_headers ?w ?c ''POST'' ?md ''application/json'' ''Content-Md5'')"
    by (rule mp)
  from c6 have ct: "?h ''Content-Type'' = Some ''application/json''"
    by simp
  from c6 have md: "?h ''Content-Md5'' = Some ?md"
    by simp
  show ?thesis
    using h1 m c1[unfolded bd] c2[unfolded bd] c4 p ct md by simp
qed


lemma set_all_last:
  "set_all h (kvs @ [(k, v)]) (CanonicalMIMEHeaderKey k) = Some v"
  by (induction kvs arbitrary: h) (auto simp: Header_Set_def)

text \<open>
  Claim C8, as amended.  When the access key and the secret are both non-empty, the \<open>Authorization\<close> header
  of the request is \<open>Lara <accessKeyId>:<signature>\<close>, the signature being that of the method, the
  normalised path, the content MD5, the content type and the \<open>Date\<close> header the request carries,
  whatever headers the caller supplies: a caller's \<open>Authorization\<close> never replaces it.  When
  either is empty the client signs nothing and sets no \<open>Authorization\<close> header: the request carries
  one only if the caller supplied it, so with no such header from the caller it is present exactly
  when both credentials are non-empty.  Every other header is the caller's when the caller supplies
  it and the client's fixed one otherwise (method override, date, SDK name and version, content
  type, content MD5): the caller's headers are applied after the fixed ones, the last of two
  entries for one canonical name winning.
\<close>

theorem request_authorization:
  "(request_prepare w c meth path params body files headers = Inr req \<and>
    request_body w body files = Inr (rd, digest, ctype) \<longrightarrow>
      Headers req ''Authorization'' =
        (if accessKeyID c \<noteq> [] \<and> accessKeySecret c \<noteq> [] then
           Some (''Lara '' @ accessKeyID c @ '':'' @
                 sign c meth (if \<not> strings_HasPrefix path ''/'' then ''/'' @ path else path) digest ctype
                   (case set_all Map.empty headers ''Date'' of Some d \<Rightarrow> d | None \<Rightarrow> httpDate w))
         else set_all Map.empty headers ''Authorization'') \<and>
      (set_all Map.empty headers ''Authorization'' = None \<longrightarrow>
         (Headers req ''Authorization'' \<noteq> None \<longleftrightarrow> accessKeyID c \<noteq> [] \<and> accessKeySecret c \<noteq> [])) \<and>
      (\<forall>k. k \<noteq> ''Authorization'' \<longrightarrow>
         Headers req k =
           (case set_all Map.empty headers k of
              Some v \<Rightarrow> Some v
            | None \<Rightarrow> fixed_headers w c meth digest ctype k)))
   \<and> fixed_headers w c meth digest ctype ''X-Http-Method-Override'' = Some meth
   \<and> fixed_headers w c meth digest ctype ''Date'' = Some (httpDate w)
   \<and> fixed_headers w c meth digest ctype ''X-Lara-Sdk-Name'' = Some (sdkName c)
   \<and> fixed_headers w c meth digest ctype ''X-Lara-Sdk-Version'' = Some (sdkVersion c)
   \<and> fixed_headers w c meth digest ctype ''Content-Type'' = (if ctype \<noteq> [] then Some ctype else None)
   \<and> fixed_headers w c meth digest ctype ''Content-Md5'' = (if digest \<noteq> [] then Some digest else None)
   \<and> fixed_headers w c meth digest ctype ''Authorization'' = None
   \<and> set_all Map.empty (kvs @ [(key, v)]) (CanonicalMIMEHeaderKey key) = Some v"
proof (intro conjI impI allI)
  assume a: "request_prepare w c meth path params body files headers = Inr req \<and>
    request_body w body files = Inr (rd, digest, ctype)"
  then have p: "request_prepare w c meth path params body files headers = Inr req"
    and rb: "request_body w body files = Inr (rd, digest, ctype)"
    by simp_all
  note req = request_prepare_Inr[OF p rb]
  have date: "(case set_all (fixed_headers w c meth digest ctype) headers ''Date'' of None \<Rightarrow> [] | Some d \<Rightarrow> d) =
      (case set_all Map.empty headers ''Date'' of Some d \<Rightarrow> d | None \<Rightarrow> httpDate w)"
    by (subst set_all_lookup) (simp add: fixed_headers_lookup split: option.splits)
  have auth: "set_all (fixed_headers w c meth digest ctype) headers ''Authorization'' =
      set_all Map.empty headers ''Authorization''"
    by (subst set_all_lookup) (simp add: fixed_headers_lookup split: option.splits)
  show main: "Headers req ''Authorization'' =
        (if accessKeyID c \<noteq> [] \<and> accessKeySecret c \<noteq> [] then
           Some (''Lara '' @ accessKeyID c @ '':'' @
                 sign c meth (if \<not> strings_HasPrefix path ''/'' then ''/'' @ path else path) digest ctype
                   (case set_all Map.empty headers ''Date'' of Some d \<Rightarrow> d | None \<Rightarrow> httpDate w))
         else set_all Map.empty headers ''Authorization'')"
    by (simp add: req signed_headers_Authorization date auth)
  {
    assume "set_all Map.empty headers ''Authorization'' = None"
    with main show "Headers req ''Authorization'' \<noteq> None \<longleftrightarrow> accessKeyID c \<noteq> [] \<and> accessKeySecret c \<noteq> []"
      by simp
  }
  {
    fix k :: string
    assume "k \<noteq> ''Authorization''"
    then show "Headers req k =
           (case set_all Map.empty headers k of
              Some v \<Rightarrow> Some v
            | None \<Rightarrow> fixed_headers w c meth digest ctype k)"
      by (simp add: req signed_headers_other)
  }
next
  show "set_all Map.empty (kvs @ [(key, v)]) (CanonicalMIMEHeaderKey key) = Some v"
    by (rule set_all_last)
qed (simp_all add: fixed_headers_lookup)


lemma canonical_lower_keys:
  "CanonicalMIMEHeaderKey ''date'' = ''Date''"
  "CanonicalMIMEHeaderKey ''authorization'' = ''Authorization''"
  "CanonicalMIMEHeaderKey ''content-type'' = ''Content-Type''"
  by code_simp+

lemma prepare_get_relative:
  "request_prepare (world_answering a) c ''GET'' ''memories'' [] None [] hs =
     Inr \<lparr>Method = ''GET'', URL = baseURL c @ ''/memories'', Body = None,
          Headers = signed_headers c ''GET'' ''/memories'' [] []
                      (fixed_headers (world_answering a) c ''GET'' [] []) hs\<rparr>"
  by (simp add: request_prepare_def request_body_def world_answering_def strings_HasPrefix_def Let_def)

text \<open>
  Claim C8 as stated fails when a credential is empty and the caller supplies an
  \<open>Authorization\<close> header: nothing is signed, and the request carries the caller's header as it
  is, so that the header is present with an empty secret, and has the form
  \<open>Lara <accessKeyId>:<signature>\<close> when the caller wrote it so.
\<close>

theorem request_authorization_counterexample:
  "accessKeySecret (newClient ''key'' [] ''https://api.laratranslate.com'') = [] \<and>
   request_prepare (world_answering (DoError ''refused'')) (newClient ''key'' [] ''https://api.laratranslate.com'')
     ''GET'' ''memories'' [] None [] [(''authorization'', ''Bearer forged'')] =
     Inr \<lparr>Method = ''GET'', URL = baseURL (newClient ''key'' [] ''https://api.laratranslate.com'') @ ''/memories'',
          Body = None,
          Headers = signed_headers (newClient ''key'' [] ''https://api.laratranslate.com'') ''GET'' ''/memories'' [] []
                      (fixed_headers (world_answering (DoError ''refused''))
                         (newClient ''key'' [] ''https://api.laratranslate.com'') ''GET'' [] [])
                      [(''authorization'', ''Bearer forged'')]\<rparr> \<and>
   signed_headers (newClient ''key'' [] ''https://api.laratranslate.com'') ''GET'' ''/memories'' [] []
     (fixed_headers (world_answering (DoError ''refused''))
        (newClient ''key'' [] ''https://api.laratranslate.com'') ''GET'' [] [])
     [(''authorization'', ''Bearer forged'')] ''Authorization'' = Some ''Bearer forged'' \<and>
   signed_headers (newClient ''key'' [] ''https://api.laratranslate.com'') ''GET'' ''/memories'' [] []
     (fixed_headers (world_answering (DoError ''refused''))
        (newClient ''key'' [] ''https://api.laratranslate.com'') ''GET'' [] [])
     [(''authorization'',
       ''Lara key:'' @ sign (newClient ''key'' [] ''https://api.laratranslate.com'') ''GET'' ''/memories'' [] []
                        ''Mon, 02 Jan 2006 15:04:05 GMT'')] ''Authorization'' =
     Some (''Lara key:'' @ sign (newClient ''key'' [] ''https://api.laratranslate.com'') ''GET'' ''/memories'' [] []
                             ''Mon, 02 Jan 2006 15:04:05 GMT'') \<and>
   signed_headers (newClient ''key'' [] ''https://api.laratranslate.com'') ''GET'' ''/memories'' [] []
     (fixed_headers (world_answering (DoError ''refused''))
        (newClient ''key'' [] ''https://api.laratranslate.com'') ''GET'' [] [])
     [(''authorization'',
       ''Lara key:'' @ sign (newClient ''key'' [] ''https://api.laratranslate.com'') ''GET'' ''/memories'' [] []
                        ''Mon, 02 Jan 2006 15:04:05 GMT'')] ''Date'' =
     Some ''Mon, 02 Jan 2006 15:04:05 GMT''"
proof -
  let ?w = "world_answering (DoError ''refused'')"
  let ?a = "newClient ''key'' [] ''https://api.laratranslate.com''"
  let ?h = "fixed_headers ?w ?a ''GET'' [] []"
  have secret: "accessKeySecret ?a = []"
    by (simp add: newClient_def)
  have p: "request_prepare ?w ?a ''GET'' ''memories'' [] None [] [(''authorization'', ''Bearer forged'')] =
      Inr \<lparr>Method = ''GET'', URL = baseURL ?a @ ''/memories'', Body = None,
           Headers = signed_headers ?a ''GET'' ''/memories'' [] [] ?h [(''authorization'', ''Bearer forged'')]\<rparr>"
    by (rule prepare_get_relative)
  have auth: "signed_headers ?a ''GET'' ''/memories'' [] [] ?h [(''authorization'', v)] ''Authorization'' = Some v" for v
    by (simp add: signed_headers_Authorization secret Header_Set_def canonical_lower_keys)
  have date: "signed_headers ?a ''GET'' ''/memories'' [] [] ?h [(''authorization'', v)] ''Date'' =
      Some ''Mon, 02 Jan 2006 15:04:05 GMT''" for v
    by (simp add: signed_headers_other Header_Set_def canonical_lower_keys fixed_headers_lookup)
       (simp add: world_answering_def)
  show ?thesis
    using secret p auth date by (intro conjI)
qed

theorem request_authorization_witness:
  "request_prepare (world_answering (DoError ''refused'')) (newClient ''key'' ''secret'' ''https://api.laratranslate.com'')
     ''GET'' ''memories'' [] None []
     [(''date'', ''Tue, 10 Nov 2009 23:00:00 GMT''), (''authorization'', ''Bearer forged'')] =
     Inr \<lparr>Method = ''GET'', URL = baseURL (newClient ''key'' ''secret'' ''https://api.laratranslate.com'') @ ''/memories'',
          Body = None,
          Headers = signed_headers (newClient ''key'' ''secret'' ''https://api.laratranslate.com'') ''GET'' ''/memories'' [] []
                      (fixed_headers (world_answering (DoError ''refused''))
                         (newClient ''key'' ''secret'' ''https://api.laratranslate.com'') ''GET'' [] [])
                      [(''date'', ''Tue, 10 Nov 2009 23:00:00 GMT''), (''authorization'', ''Bearer forged'')]\<rparr> \<and>
   request_body (world_answering (DoError ''refused'')) None [] = Inr (None, [], []) \<and>
   signed_headers (newClient ''key'' ''secret'' ''https://api.laratranslate.com'') ''GET'' ''/memories'' [] []
     (fixed_headers (world_answering (DoError ''refused''))
        (newClient ''key'' ''secret'' ''https://api.laratranslate.com'') ''GET'' [] [])
     [(''date'', ''Tue, 10 Nov 2009 23:00:00 GMT''), (''authorization'', ''Bearer forged'')] ''Authorization'' =
     Some (''Lara key:'' @
           sign (newClient ''key'' ''secret'' ''https://api.laratranslate.com'') ''GET'' ''/memories'' [] []
             ''Tue, 10 Nov 2009 23:00:00 GMT'') \<and>
   signed_headers (newClient ''key'' ''secret'' ''https://api.laratranslate.com'') ''GET'' ''/memories'' [] []
     (fixed_headers (world_answering (DoError ''refused''))
        (newClient ''key'' ''secret'' ''https://api.laratranslate.com'') ''GET'' [] [])
     [(''date'', ''Tue, 10 Nov 2009 23:00:00 GMT''), (''authorization'', ''Bearer forged'')] ''Date'' =
     Some ''Tue, 10 Nov 2009 23:00:00 GMT'' \<and>
   set_all Map.empty [(''date'', ''Tue, 10 Nov 2009 23:00:00 GMT'')] ''Authorization'' = None \<and>
   signed_headers (newClient ''key'' [] ''https://api.laratranslate.com'') ''GET'' ''/memories'' [] []
     (fixed_headers (world_answering (DoError ''refused''))
        (newClient ''key'' [] ''https://api.laratranslate.com'') ''GET'' [] [])
     [(''date'', ''Tue, 10 Nov 2009 23:00:00 GMT'')] ''Authorization'' = None"
proof -
  let ?w = "world_answering (DoError ''refused'')"
  let ?c = "newClient ''key'' ''secret'' ''https://api.laratranslate.com''"
  let ?a = "newClient ''key'' [] ''https://api.laratranslate.com''"
  let ?date = "''Tue, 10 Nov 2009 23:00:00 GMT''"
  let ?hs = "[(''date'', ?date), (''authorization'', ''Bearer forged'')]"
  let ?hs' = "[(''date'', ?date)]"
  let ?req = "\<lparr>Method = ''GET'', URL = baseURL ?c @ ''/memories'', Body = None,
                Headers = signed_headers ?c ''GET'' ''/memories'' [] [] (fixed_headers ?w ?c ''GET'' [] []) ?hs\<rparr>"
  let ?req' = "\<lparr>Method = ''GET'', URL = baseURL ?a @ ''/memories'', Body = None,
                Headers = signed_headers ?a ''GET'' ''/memories'' [] [] (fixed_headers ?w ?a ''GET'' [] []) ?hs'\<rparr>"
  note th = request_authorization[where w = ?w and c = ?c and meth = "''GET''" and path = "''memories''"
      and params = "[]" and body = None and files = "[]" and headers = ?hs and req = ?req
      and rd = None and digest = "[]" and ctype = "[]", THEN conjunct1]
  note th' = request_authorization[where w = ?w and c = ?a and meth = "''GET''" and path = "''memories''"
      and params = "[]" and body = None and files = "[]" and headers = ?hs' and req = ?req'
      and rd = None and digest = "[]" and ctype = "[]", THEN conjunct1]
  have rb: "request_body ?w None [] = Inr (None, [], [])"
    by (simp add: request_body_def)
  have p: "request_prepare ?w ?c ''GET'' ''memories'' [] None [] ?hs = Inr ?req"
    by (rule prepare_get_relative)
  have p': "request_prepare ?w ?a ''GET'' ''memories'' [] None [] ?hs' = Inr ?req'"
    by (rule prepare_get_relative)
  have creds: "accessKeyID ?c = ''key''" "accessKeySecret ?c = ''secret''" "accessKeyID ?a = ''key''"
    "accessKeySecret ?a = []"
    by (simp_all add: newClient_def)
  have d: "set_all Map.empty ?hs ''Date'' = Some ?date" "set_all Map.empty ?hs' ''Date'' = Some ?date"
    by (simp_all add: Header_Set_def canonical_lower_keys)
  have na: "set_all Map.empty ?hs' ''Authorization'' = None"
    by (simp add: Header_Set_def canonical_lower_keys)
  from p rb have h: "request_prepare ?w ?c ''GET'' ''memories'' [] None [] ?hs = Inr ?req \<and>
      request_body ?w None [] = Inr (None, [], [])"
    by (rule conjI)
  from p' rb have h': "request_prepare ?w ?a ''GET'' ''memories'' [] None [] ?hs' = Inr ?req' \<and>
      request_body ?w None [] = Inr (None, [], [])"
    by (rule conjI)
  note r = mp[OF th h]
  note r' = mp[OF th' h']
  have c1: "Headers ?req ''Authorization'' =
      Some (''Lara key:'' @ sign ?c ''GET'' ''/memories'' [] [] ?date)"
    using r[THEN conjunct1] unfolding d creds by (simp add: strings_HasPrefix_def)
  from r[THEN conjunct2, THEN conjunct2] have "''Date'' \<noteq> ''Authorization'' \<longrightarrow> Headers ?req ''Date'' =
      (case set_all Map.empty ?hs ''Date'' of Some v \<Rightarrow> Some v | None \<Rightarrow> fixed_headers ?w ?c ''GET'' [] [] ''Date'')"
    by (rule spec)
  then have c2: "Headers ?req ''Date'' = Some ?date"
    unfolding d by simp
  have c3: "Headers ?req' ''Authorization'' = None"
    using r'[THEN conjunct1] unfolding na creds by simp
  from c1 c2 c3 p rb na show ?thesis
    by simp
qed

section \<open>Properties of the envelope and of lookups\<close>
























lemma low_surrogate_Some:
  "low_surrogate s = Some lo \<longleftrightarrow>
     (\<exists>l1 l2 l3 l4 rest. s = CHR 0x5C # CHR ''u'' # l1 # l2 # l3 # l4 # rest \<and>
        getu4 l1 l2 l3 l4 = Some lo \<and> 0xDC00 \<le> lo \<and> lo < 0xE000)"
  by (cases s rule: low_surrogate.cases) (auto split: if_splits option.splits)



lemma low_surrogate_drop: "low_surrogate s = Some lo \<Longrightarrow> drop 6 (s @ r) = drop 6 s @ r"
  unfolding low_surrogate_Some by auto

lemma drop_size_ext: "n \<le> length p \<Longrightarrow> drop (n - 1) (tl p @ r) = drop (n - 1) (tl p) @ r"
  by (cases p) auto


















lemma not_space [simp]:
  "\<not> isSpace (CHR ''{'')" "\<not> isSpace (CHR ''}'')" "\<not> isSpace (CHR ''['')" "\<not> isSpace (CHR '']'')"
  "\<not> isSpace (CHR 0x22)" "\<not> isSpace (CHR '':'')" "\<not> isSpace (CHR '','')"
  by (simp_all add: isSpace_def)

























lemma request_in_world:
  "request (world_answering a) c ''GET'' path [] None [] hs = request_answer a"
  by (simp add: request_def request_prepare_def request_body_def Let_def)
     (simp add: world_answering_def)


text \<open>
  Claim C10.  \<open>Memories.Get\<close> and \<open>Glossaries.Get\<close> return neither a value nor an error when
  the client call fails with an API failure whose status is 404; every other failure (an API
  failure with another status, a connection or timeout failure, a decoding failure) is returned as
  an error, wrapped under \<open>failed to get memory: \<close> or \<open>failed to get glossary: \<close>, with no
  value; a success returns the value and no error.  In particular a request classified as an API
  failure with status 404 makes both return \<open>(nil, nil)\<close>.
\<close>

theorem Get_not_found_is_absent:
  "(gm (''/memories/'' @ id') = Inl (LaraError 404 ty msg) \<longrightarrow> Memories_Get gm id' = (None, None))
   \<and> (gg (''/glossaries/'' @ id') = Inl (LaraError 404 ty msg) \<longrightarrow> Glossaries_Get gg id' = (None, None))
   \<and> (fm (''/memories/'' @ id') = Inl err \<and> (\<forall>ty msg. err \<noteq> LaraError 404 ty msg) \<longrightarrow>
        Memories_Get fm id' = (None, Some (Wrapf ''failed to get memory: '' err)))
   \<and> (fg (''/glossaries/'' @ id') = Inl err' \<and> (\<forall>ty msg. err' \<noteq> LaraError 404 ty msg) \<longrightarrow>
        Glossaries_Get fg id' = (None, Some (Wrapf ''failed to get glossary: '' err')))
   \<and> (sm (''/memories/'' @ id') = Inr m \<longrightarrow> Memories_Get sm id' = (Some m, None))
   \<and> (sg (''/glossaries/'' @ id') = Inr g \<longrightarrow> Glossaries_Get sg id' = (Some g, None))
   \<and> (request w c ''GET'' (''/memories/'' @ id') [] None [] [] = Inl (LaraError 404 ty msg) \<longrightarrow>
        Memories_Get (service_Get w c result) id' = (None, None))
   \<and> (request w c ''GET'' (''/glossaries/'' @ id') [] None [] [] = Inl (LaraError 404 ty msg) \<longrightarrow>
        Glossaries_Get (service_Get w c result') id' = (None, None))"
proof (intro conjI impI)
  assume "gm (''/memories/'' @ id') = Inl (LaraError 404 ty msg)"
  then show "Memories_Get gm id' = (None, None)"
    by (simp add: Memories_Get_def Sprintf_one)
next
  assume "gg (''/glossaries/'' @ id') = Inl (LaraError 404 ty msg)"
  then show "Glossaries_Get gg id' = (None, None)"
    by (simp add: Glossaries_Get_def Sprintf_one)
next
  assume "fm (''/memories/'' @ id') = Inl err \<and> (\<forall>ty msg. err \<noteq> LaraError 404 ty msg)"
  then show "Memories_Get fm id' = (None, Some (Wrapf ''failed to get memory: '' err))"
    by (cases err) (auto simp: Memories_Get_def Sprintf_one)
next
  assume "fg (''/glossaries/'' @ id') = Inl err' \<and> (\<forall>ty msg. err' \<noteq> LaraError 404 ty msg)"
  then show "Glossaries_Get fg id' = (None, Some (Wrapf ''failed to get glossary: '' err'))"
    by (cases err') (auto simp: Glossaries_Get_def Sprintf_one)
next
  assume "sm (''/memories/'' @ id') = Inr m"
  then show "Memories_Get sm id' = (Some m, None)"
    by (simp add: Memories_Get_def Sprintf_one)
next
  assume "sg (''/glossaries/'' @ id') = Inr g"
  then show "Glossaries_Get sg id' = (Some g, None)"
    by (simp add: Glossaries_Get_def Sprintf_one)
next
  assume "request w c ''GET'' (''/memories/'' @ id') [] None [] [] = Inl (LaraError 404 ty msg)"
  then show "Memories_Get (service_Get w c result) id' = (None, None)"
    by (simp add: Memories_Get_def Sprintf_one service_Get_def Client_Get_def)
next
  assume "request w c ''GET'' (''/glossaries/'' @ id') [] None [] [] = Inl (LaraError 404 ty msg)"
  then show "Glossaries_Get (service_Get w c result') id' = (None, None)"
    by (simp add: Glossaries_Get_def Sprintf_one service_Get_def Client_Get_def)
qed


theorem Get_not_found_is_absent_witness:
  "get (answering 0 (Inl (LaraError 404 ''NotFound'' ''nope'') :: error + string)) (''/memories/'' @ ''m1'') =
     Inl (LaraError 404 ''NotFound'' ''nope'') \<and>
   Memories_Get (get (answering 0 (Inl (LaraError 404 ''NotFound'' ''nope'') :: error + string))) ''m1'' = (None, None) \<and>
   Glossaries_Get (get (answering 0 (Inl (LaraError 404 ''NotFound'' ''nope'') :: error + string))) ''m1'' = (None, None) \<and>
   Memories_Get (get (answering 0 (Inl (LaraError 500 ''Internal'' ''boom'') :: error + string))) ''m1'' =
     (None, Some (Wrapf ''failed to get memory: '' (LaraError 500 ''Internal'' ''boom''))) \<and>
   Glossaries_Get (get (answering 0 (Inl (LaraTimeoutError ''i/o timeout'') :: error + string))) ''m1'' =
     (None, Some (Wrapf ''failed to get glossary: '' (LaraTimeoutError ''i/o timeout''))) \<and>
   Memories_Get (get (answering 0 (Inr ''memory'' :: error + string))) ''m1'' = (Some ''memory'', None) \<and>
   Glossaries_Get (get (answering 0 (Inr ''glossary'' :: error + string))) ''m1'' = (Some ''glossary'', None) \<and>
   request (world_answering (Response 404 (Inr ''{\"status\":404,\"error\":{\"type\":\"NotFound\",\"message\":\"nope\"}}'')))
     (newClient [] [] ''https://api.laratranslate.com'') ''GET'' (''/memories/'' @ ''m1'') [] None [] [] =
     Inl (LaraError 404 ''NotFound'' ''nope'') \<and>
   Memories_Get
     (service_Get (world_answering (Response 404 (Inr ''{\"status\":404,\"error\":{\"type\":\"NotFound\",\"message\":\"nope\"}}'')))
        (newClient [] [] ''https://api.laratranslate.com'') (Inr :: string \<Rightarrow> error + string)) ''m1'' = (None, None) \<and>
   Glossaries_Get
     (service_Get (world_answering (Response 404 (Inr ''{\"status\":404,\"error\":{\"type\":\"NotFound\",\"message\":\"nope\"}}'')))
        (newClient [] [] ''https://api.laratranslate.com'') (Inr :: string \<Rightarrow> error + string)) ''m1'' = (None, None)"
proof -
  let ?nf = "LaraError 404 ''NotFound'' ''nope''"
  let ?gone = "get (answering 0 (Inl ?nf :: error + string))"
  let ?broken = "get (answering 0 (Inl (LaraError 500 ''Internal'' ''boom'') :: error + string))"
  let ?slow = "get (answering 0 (Inl (LaraTimeoutError ''i/o timeout'') :: error + string))"
  let ?mem = "get (answering 0 (Inr ''memory'' :: error + string))"
  let ?glo = "get (answering 0 (Inr ''glossary'' :: error + string))"
  let ?w = "world_answering (Response 404 (Inr ''{\"status\":404,\"error\":{\"type\":\"NotFound\",\"message\":\"nope\"}}''))"
  let ?c = "newClient [] [] ''https://api.laratranslate.com''"
  note th = Get_not_found_is_absent[where gm = ?gone and gg = ?gone and id' = "''m1''" and ty = "''NotFound''"
      and msg = "''nope''" and fm = ?broken and err = "LaraError 500 ''Internal'' ''boom''"
      and fg = ?slow and err' = "LaraTimeoutError ''i/o timeout''" and sm = ?mem and m = "''memory''"
      and sg = ?glo and g = "''glossary''" and w = ?w and c = ?c
      and result = "Inr :: string \<Rightarrow> error + string" and result' = "Inr :: string \<Rightarrow> error + string"]
  have g: "?gone (''/memories/'' @ ''m1'') = Inl ?nf" "?gone (''/glossaries/'' @ ''m1'') = Inl ?nf"
    by (simp_all add: answering_def)
  have f: "?broken (''/memories/'' @ ''m1'') = Inl (LaraError 500 ''Internal'' ''boom'') \<and>
           (\<forall>ty msg. LaraError 500 ''Internal'' ''boom'' \<noteq> LaraError 404 ty msg)"
          "?slow (''/glossaries/'' @ ''m1'') = Inl (LaraTimeoutError ''i/o timeout'') \<and>
           (\<forall>ty msg. LaraTimeoutError ''i/o timeout'' \<noteq> LaraError 404 ty msg)"
    by (simp_all add: answering_def)
  have s: "?mem (''/memories/'' @ ''m1'') = Inr ''memory''" "?glo (''/glossaries/'' @ ''m1'') = Inr ''glossary''"
    by (simp_all add: answering_def)
  have r: "request ?w ?c ''GET'' (''/memories/'' @ ''m1'') [] None [] [] = Inl ?nf"
          "request ?w ?c ''GET'' (''/glossaries/'' @ ''m1'') [] None [] [] = Inl ?nf"
    by (simp_all only: request_in_world answer_404)
  note c1 = mp[OF th[THEN conjunct1] g(1)]
  note c2 = mp[OF th[THEN conjunct2, THEN conjunct1] g(2)]
  note c3 = mp[OF th[THEN conjunct2, THEN conjunct2, THEN conjunct1] f(1)]
  note c4 = mp[OF th[THEN conjunct2, THEN conjunct2, THEN conjunct2, THEN conjunct1] f(2)]
  note c5 = mp[OF th[THEN conjunct2, THEN conjunct2, THEN conjunct2, THEN conjunct2, THEN conjunct1] s(1)]
  note c6 = mp[OF th[THEN conjunct2, THEN conjunct2, THEN conjunct2, THEN conjunct2, THEN conjunct2,
                     THEN conjunct1] s(2)]
  note c7 = mp[OF th[THEN conjunct2, THEN conjunct2, THEN conjunct2, THEN conjunct2, THEN conjunct2,
                     THEN conjunct2, THEN conjunct1] r(1)]
  note c8 = mp[OF th[THEN conjunct2, THEN conjunct2, THEN conjunct2, THEN conjunct2, THEN conjunct2,
                     THEN conjunct2, THEN conjunct2] r(2)]
  from g(1) c1 c2 c3 c4 c5 c6 r(1) c7 c8 show ?thesis
    by (intro conjI)
qed

end
